theory Spec2Isabelle
  imports Complex_Main
begin

section \<open>JavaScript primitives used by the sources\<close>

text \<open>
  JavaScript strings are modelled as \<^typ>\<open>string\<close>: one \<^typ>\<open>char\<close> stands for one
  code unit, so \<open>length\<close> is the \<open>.length\<close> of the source string and \<open>take\<close> is
  \<open>substring(0, n)\<close>. The texts of this development are ASCII (Latin-1 at most).
\<close>

definition lowerCaseTable :: "(char \<times> char) list" where
  "lowerCaseTable = zip ''ABCDEFGHIJKLMNOPQRSTUVWXYZ'' ''abcdefghijklmnopqrstuvwxyz''"

text \<open>
  \<open>toLowerCase\<close> on one code unit: the letters \<open>A\<close> to \<open>Z\<close> by the table, the upper-case
  letters of Latin-1 (192 to 222 but 215) by their distance of 32 to the lower-case ones.
\<close>

definition toLowerChar :: "char \<Rightarrow> char" where
  "toLowerChar c =
     (case map_of lowerCaseTable c of
        Some l \<Rightarrow> l
      | None \<Rightarrow>
          (let n = (of_char c :: nat)
           in if (192 \<le> n \<and> n \<le> 214) \<or> (216 \<le> n \<and> n \<le> 222) then char_of (n + 32) else c))"

definition toLowerCase :: "string \<Rightarrow> string" where
  "toLowerCase s = map toLowerChar s"

text \<open>\<open>s.includes(sub)\<close>: \<open>sub\<close> occurs in \<open>s\<close> as a contiguous substring.\<close>

fun str_includes :: "string \<Rightarrow> string \<Rightarrow> bool" where
  "str_includes [] sub = (sub = [])"
| "str_includes (c # cs) sub = (take (length sub) (c # cs) = sub \<or> str_includes cs sub)"

text \<open>
  \<open>a || b\<close> on a possibly absent string: \<open>undefined\<close> (here \<open>None\<close>) and the empty string are
  falsy, every other string is truthy.
\<close>

definition or_default :: "string option \<Rightarrow> string \<Rightarrow> string" where
  "or_default v d = (case v of None \<Rightarrow> d | Some s \<Rightarrow> if s = [] then d else s)"

text \<open>
  \<open>parseInt(v)\<close> with no radix: leading white space is skipped, an optional sign is read, a
  \<open>0x\<close>/\<open>0X\<close> prefix selects base 16, and the longest run of digits is converted. \<open>None\<close> is
  \<open>NaN\<close>. An absent value (\<open>undefined\<close>) is converted to the string \<open>undefined\<close> first, which
  has no digits.
\<close>

definition isWhiteSpace :: "char \<Rightarrow> bool" where
  "isWhiteSpace c = ((of_char c :: nat) \<in> {9, 10, 11, 12, 13, 32, 160})"

definition digitValue :: "char \<Rightarrow> nat option" where
  "digitValue c =
     (let n = (of_char c :: nat)
      in if 48 \<le> n \<and> n \<le> 57 then Some (n - 48)
         else if 97 \<le> n \<and> n \<le> 102 then Some (n - 87)
         else if 65 \<le> n \<and> n \<le> 70 then Some (n - 55)
         else None)"

definition isDigitIn :: "nat \<Rightarrow> char \<Rightarrow> bool" where
  "isDigitIn radix c = (case digitValue c of None \<Rightarrow> False | Some d \<Rightarrow> d < radix)"

definition digitsValue :: "nat \<Rightarrow> string \<Rightarrow> nat" where
  "digitsValue radix ds = foldl (\<lambda>acc c. acc * radix + (case digitValue c of None \<Rightarrow> 0 | Some d \<Rightarrow> d)) 0 ds"

definition parseDigits :: "nat \<Rightarrow> string \<Rightarrow> nat option" where
  "parseDigits radix s =
     (let ds = takeWhile (isDigitIn radix) s
      in if ds = [] then None else Some (digitsValue radix ds))"

definition parseUnsigned :: "string \<Rightarrow> nat option" where
  "parseUnsigned s =
     (if take 2 s = ''0x'' \<or> take 2 s = ''0X'' then parseDigits 16 (drop 2 s)
      else parseDigits 10 s)"

definition parseInt :: "string option \<Rightarrow> int option" where
  "parseInt v =
     (case v of
        None \<Rightarrow> None
      | Some s \<Rightarrow>
          (let t = dropWhile isWhiteSpace s
           in case t of
                [] \<Rightarrow> None
              | c # r \<Rightarrow>
                  if c = CHR ''-'' then map_option (\<lambda>n. - int n) (parseUnsigned r)
                  else if c = CHR ''+'' then map_option int (parseUnsigned r)
                  else map_option int (parseUnsigned t)))"

section \<open>Front-end triage service: the local (mock) assessment\<close>

text \<open>\<open>URGENCY_LEVELS\<close>: the four urgency levels are plain strings in the source.\<close>

definition EMERGENCY :: string where "EMERGENCY = ''emergency''"
definition URGENT :: string where "URGENT = ''urgent''"
definition SEMI_URGENT :: string where "SEMI_URGENT = ''semi-urgent''"
definition NON_URGENT :: string where "NON_URGENT = ''non-urgent''"

record chatMessage =
  role :: string
  content :: string

text \<open>
  The patient information as the forms and the API pass it around; a field that was not supplied
  is absent (\<open>undefined\<close>, here \<open>None\<close>).
\<close>

record patientData =
  name :: "string option"
  age :: "string option"
  gender :: "string option"
  medicalHistory :: "string option"
  chiefComplaint :: "string option"

record complaintAnalysis =
  potentialUrgency :: "string option"
  redFlags :: "string list option"
  followUpQuestions :: "string list"

record mockTriageResult =
  urgencyLevel :: string
  recommendation :: string
  warnings :: "string list"
  nextSteps :: "string list"

definition getRecommendationByUrgency :: "string \<Rightarrow> string" where
  "getRecommendationByUrgency level =
     (if level = EMERGENCY then
        ''Based on the information provided, you may be experiencing a medical emergency. Please call emergency services (911) immediately or go to the nearest emergency room.''
      else if level = URGENT then
        ''Your symptoms require prompt medical attention. Please visit an urgent care center or emergency room within the next 1-2 hours.''
      else if level = SEMI_URGENT then
        ''Your condition should be evaluated by a healthcare provider. Please schedule an appointment with your doctor within the next 24 hours or visit an urgent care center if your symptoms worsen.''
      else if level = NON_URGENT then
        ''Your symptoms can likely be managed with home care or through a routine appointment with your primary care provider. Please schedule a regular appointment in the next few days.''
      else ''Please consult with a healthcare provider to evaluate your symptoms.'')"

definition DISCLAIMER :: string where
  "DISCLAIMER = ''This is an automated assessment and not a medical diagnosis.''"

definition levelWarnings :: "string \<Rightarrow> string list" where
  "levelWarnings level =
     (if level = EMERGENCY then
        [''Do not drive yourself if you are experiencing severe symptoms.'',
         ''Call emergency services (911) immediately.'']
      else if level = URGENT then
        [''If your symptoms worsen, call emergency services (911).'']
      else if level = SEMI_URGENT then
        [''If your symptoms suddenly worsen, seek immediate medical attention.'']
      else if level = NON_URGENT then
        [''Monitor your symptoms. If they worsen or persist, contact your healthcare provider.'']
      else [])"

definition ageWarnings :: "string \<Rightarrow> patientData \<Rightarrow> string list" where
  "ageWarnings level pd =
     (case parseInt (age pd) of
        None \<Rightarrow> []
      | Some a \<Rightarrow>
          if a < 2 \<and> (level = URGENT \<or> level = SEMI_URGENT) then
            [''Young children can deteriorate quickly. Monitor them closely for any changes.'']
          else if a > 65 then
            [''Older adults may have atypical presentations of serious conditions. Consider seeking medical attention even for mild symptoms.'']
          else [])"

text \<open>
  \<open>getWarningsByUrgency\<close>: the array starts empty, the common warning is pushed first, then the
  warnings of the level, then the age-specific one.
\<close>

definition getWarningsByUrgency :: "string \<Rightarrow> patientData \<Rightarrow> string list" where
  "getWarningsByUrgency level pd = ([] @ [DISCLAIMER]) @ levelWarnings level @ ageWarnings level pd"

definition getNextStepsByUrgency :: "string \<Rightarrow> patientData \<Rightarrow> string list" where
  "getNextStepsByUrgency level pd =
     (if level = EMERGENCY then
        [''Call emergency services (911) immediately.'',
         ''Do not eat or drink anything until evaluated by medical professionals.'',
         ''If you have prescribed emergency medications (like nitroglycerin for chest pain), take them as prescribed.'',
         ''Stay calm and wait for emergency services to arrive.'']
      else if level = URGENT then
        [''Go to the nearest urgent care center or emergency room within the next 1-2 hours.'',
         ''If possible, bring a list of your current medications.'',
         ''If symptoms worsen before you arrive, call emergency services.'',
         ''Arrange for someone else to drive you if possible.'']
      else if level = SEMI_URGENT then
        [''Contact your doctor to schedule an appointment within the next 24 hours.'',
         ''Monitor your symptoms closely and keep a log of any changes.'',
         ''Take over-the-counter medications as appropriate for symptom relief.'',
         ''Rest and stay hydrated.'',
         ''If symptoms worsen, seek more immediate medical attention.'']
      else if level = NON_URGENT then
        [''Schedule a routine appointment with your primary care provider.'',
         ''Try appropriate home care measures for your symptoms.'',
         ''Rest and ensure adequate hydration.'',
         ''Take over-the-counter medications as appropriate for symptom relief.'',
         ''If symptoms persist beyond 7-10 days or worsen, follow up with your healthcare provider.'']
      else
        [''Monitor your symptoms closely.'',
         ''Contact your healthcare provider if you have concerns.'',
         ''Ensure you're getting adequate rest and hydration.''])"

text \<open>The lower-cased contents of the messages whose role is \<open>user\<close>.\<close>

definition userMessages :: "chatMessage list \<Rightarrow> string list" where
  "userMessages chatHistory =
     map (\<lambda>msg. toLowerCase (content msg)) (filter (\<lambda>msg. role msg = ''user'') chatHistory)"

definition isEmergencyMessage :: "string \<Rightarrow> bool" where
  "isEmergencyMessage msg =
     (str_includes msg ''severe'' \<or> str_includes msg ''excruciating'' \<or> str_includes msg ''worst''
      \<or> str_includes msg ''can't breathe'' \<or> str_includes msg ''10 out of 10'')"

definition hasEmergencyWords :: "chatMessage list \<Rightarrow> bool" where
  "hasEmergencyWords chatHistory = list_ex isEmergencyMessage (userMessages chatHistory)"

definition redFlagsMentioned :: "complaintAnalysis \<Rightarrow> chatMessage list \<Rightarrow> bool" where
  "redFlagsMentioned ca chatHistory =
     (case redFlags ca of
        None \<Rightarrow> False
      | Some flags \<Rightarrow>
          list_ex (\<lambda>flag. list_ex (\<lambda>msg. str_includes msg (toLowerCase flag)) (userMessages chatHistory))
            flags)"

definition mockUrgency :: "chatMessage list \<Rightarrow> complaintAnalysis \<Rightarrow> string" where
  "mockUrgency chatHistory ca =
     (let u0 = or_default (potentialUrgency ca) NON_URGENT
      in if chatHistory = [] then u0
         else
           let u1 = (if hasEmergencyWords chatHistory \<and> u0 \<noteq> EMERGENCY then URGENT else u0)
           in if redFlagsMentioned ca chatHistory then
                (if u1 = NON_URGENT then SEMI_URGENT
                 else if u1 = SEMI_URGENT then URGENT
                 else u1)
              else u1)"

definition generateMockTriageResult ::
  "patientData \<Rightarrow> chatMessage list \<Rightarrow> complaintAnalysis \<Rightarrow> mockTriageResult" where
  "generateMockTriageResult pd chatHistory ca =
     (let level = mockUrgency chatHistory ca
      in \<lparr>urgencyLevel = level,
          recommendation = getRecommendationByUrgency level,
          warnings = getWarningsByUrgency level pd,
          nextSteps = getNextStepsByUrgency level pd\<rparr>)"

section \<open>JSON values and \<open>JSON.parse\<close>\<close>

text \<open>
  The values \<open>JSON.parse\<close> produces. A number carries its literal as written; an object carries
  its members in the order of the text.
\<close>

datatype json =
    JNull
  | JBool bool
  | JNum string
  | JStr string
  | JArr "json list"
  | JObj "(string \<times> json) list"

datatype error = Error string | TypeError string | DimensionMismatch | EmptyIndex

text \<open>
  Reading a property of a parsed value, as \<open>v.name\<close> does: on \<open>null\<close> it throws a
  \<open>TypeError\<close>; on an object the last member of that name is read (\<open>JSON.parse\<close> lets a later
  duplicate overwrite an earlier one); on anything else, and on an object without the member, the
  result is \<open>undefined\<close> (here \<open>None\<close>).
\<close>

definition getProp :: "json \<Rightarrow> string \<Rightarrow> error + json option" where
  "getProp v key =
     (case v of
        JNull \<Rightarrow>
          Inl (TypeError (''Cannot read properties of null (reading '' @ [CHR 0x27] @ key
                          @ [CHR 0x27] @ '')''))
      | JObj members \<Rightarrow> Inr (map_of (rev members) key)
      | _ \<Rightarrow> Inr None)"

text \<open>
  Truthiness of a property value: \<open>undefined\<close>, \<open>null\<close>, \<open>false\<close>, zero and the empty string
  are falsy. A number literal is zero when its mantissa has no digit other than \<open>0\<close> (a
  literal so small that it rounds to zero as a double is outside the model).
\<close>

definition mantissa :: "string \<Rightarrow> string" where
  "mantissa lit = takeWhile (\<lambda>c. c \<noteq> CHR ''e'' \<and> c \<noteq> CHR ''E'') lit"

definition isTruthy :: "json option \<Rightarrow> bool" where
  "isTruthy v =
     (case v of
        None \<Rightarrow> False
      | Some JNull \<Rightarrow> False
      | Some (JBool b) \<Rightarrow> b
      | Some (JNum lit) \<Rightarrow> list_ex (\<lambda>c. c \<in> set ''123456789'') (mantissa lit)
      | Some (JStr s) \<Rightarrow> s \<noteq> []
      | Some (JArr _) \<Rightarrow> True
      | Some (JObj _) \<Rightarrow> True)"

text \<open>
  \<open>JSON.parse\<close> is a built-in of the language; it is modelled by a recursive-descent parser of
  the JSON grammar. The recursion is bounded by a fuel of twice the length of the text, which
  every descent stays below, since two nested calls consume at least one character. An escape
  \<open>\uXXXX\<close> of a code unit above 255 has no counterpart in \<^typ>\<open>char\<close> and is kept as written.
\<close>

definition isJsonWs :: "char \<Rightarrow> bool" where
  "isJsonWs c = (c = CHR '' '' \<or> c = CHR 0x09 \<or> c = CHR 0x0A \<or> c = CHR 0x0D)"

definition skipWs :: "string \<Rightarrow> string" where
  "skipWs s = dropWhile isJsonWs s"

definition isDigit :: "char \<Rightarrow> bool" where
  "isDigit c = (c \<in> set ''0123456789'')"

definition isHexDigit :: "char \<Rightarrow> bool" where
  "isHexDigit c = (c \<in> set ''0123456789abcdefABCDEF'')"

text \<open>
  The characters of a string literal after the opening quote: the decoded contents and the rest
  of the text after the closing quote.
\<close>

fun parseChars :: "string \<Rightarrow> string \<Rightarrow> (string \<times> string) option" where
  "parseChars acc [] = None"
| "parseChars acc (c # r) =
     (if c = CHR 0x22 then Some (rev acc, r)
      else if c = CHR 0x5C then
        (case r of
           [] \<Rightarrow> None
         | e # r' \<Rightarrow>
             if e = CHR 0x22 \<or> e = CHR 0x5C \<or> e = CHR ''/'' then parseChars (e # acc) r'
             else if e = CHR ''b'' then parseChars (CHR 0x08 # acc) r'
             else if e = CHR ''f'' then parseChars (CHR 0x0C # acc) r'
             else if e = CHR ''n'' then parseChars (CHR 0x0A # acc) r'
             else if e = CHR ''r'' then parseChars (CHR 0x0D # acc) r'
             else if e = CHR ''t'' then parseChars (CHR 0x09 # acc) r'
             else if e = CHR ''u'' \<and> length (take 4 r') = 4 \<and> list_all isHexDigit (take 4 r') then
               (let n = digitsValue 16 (take 4 r')
                in if n < 256 then parseChars (char_of n # acc) (drop 4 r')
                   else parseChars (rev (take 4 r') @ CHR ''u'' # CHR 0x5C # acc) (drop 4 r'))
             else None)
      else if (of_char c :: nat) < 32 then None
      else parseChars (c # acc) r)"

text \<open>A number literal: \<open>-? (0 | [1-9][0-9]*) (. [0-9]+)? ([eE] [+-]? [0-9]+)?\<close>.\<close>

definition parseNumber :: "string \<Rightarrow> (string \<times> string) option" where
  "parseNumber s =
     (let sign = (if take 1 s = ''-'' then ''-'' else []);
          s1 = drop (length sign) s;
          ip = (if take 1 s1 = ''0'' then ''0'' else takeWhile isDigit s1);
          s2 = drop (length ip) s1;
          hasFrac = (take 1 s2 = ''.'');
          fd = (if hasFrac then takeWhile isDigit (drop 1 s2) else []);
          s3 = (if hasFrac then drop (1 + length fd) s2 else s2);
          hasExp = (take 1 s3 = ''e'' \<or> take 1 s3 = ''E'');
          es = (if hasExp \<and> (take 1 (drop 1 s3) = ''+'' \<or> take 1 (drop 1 s3) = ''-'')
                then take 1 (drop 1 s3) else []);
          ed = (if hasExp then takeWhile isDigit (drop (1 + length es) s3) else []);
          s4 = (if hasExp then drop (1 + length es + length ed) s3 else s3)
      in if ip = [] \<or> (hasFrac \<and> fd = []) \<or> (hasExp \<and> ed = []) then None
         else Some (take (length s - length s4) s, s4))"

fun parseValue :: "nat \<Rightarrow> string \<Rightarrow> (json \<times> string) option"
  and parseElements :: "nat \<Rightarrow> json list \<Rightarrow> string \<Rightarrow> (json list \<times> string) option"
  and parseMembers ::
    "nat \<Rightarrow> (string \<times> json) list \<Rightarrow> string \<Rightarrow> ((string \<times> json) list \<times> string) option"
where
  "parseValue 0 s = None"
| "parseValue (Suc n) s =
     (case skipWs s of
        [] \<Rightarrow> None
      | c # r \<Rightarrow>
          if c = CHR ''{'' then
            (case skipWs r of
               [] \<Rightarrow> None
             | d # r' \<Rightarrow>
                 if d = CHR ''}'' then Some (JObj [], r')
                 else map_option (\<lambda>(ms, rest). (JObj ms, rest)) (parseMembers n [] (d # r')))
          else if c = CHR ''['' then
            (case skipWs r of
               [] \<Rightarrow> None
             | d # r' \<Rightarrow>
                 if d = CHR '']'' then Some (JArr [], r')
                 else map_option (\<lambda>(vs, rest). (JArr vs, rest)) (parseElements n [] (d # r')))
          else if c = CHR 0x22 then map_option (\<lambda>(str, rest). (JStr str, rest)) (parseChars [] r)
          else if take 4 (c # r) = ''null'' then Some (JNull, drop 4 (c # r))
          else if take 4 (c # r) = ''true'' then Some (JBool True, drop 4 (c # r))
          else if take 5 (c # r) = ''false'' then Some (JBool False, drop 5 (c # r))
          else map_option (\<lambda>(lit, rest). (JNum lit, rest)) (parseNumber (c # r)))"
| "parseElements 0 acc s = None"
| "parseElements (Suc n) acc s =
     (case parseValue n s of
        None \<Rightarrow> None
      | Some (v, rest) \<Rightarrow>
          (case skipWs rest of
             [] \<Rightarrow> None
           | c # r \<Rightarrow>
               if c = CHR '','' then parseElements n (acc @ [v]) r
               else if c = CHR '']'' then Some (acc @ [v], r)
               else None))"
| "parseMembers 0 acc s = None"
| "parseMembers (Suc n) acc s =
     (case skipWs s of
        [] \<Rightarrow> None
      | q # r \<Rightarrow>
          if q \<noteq> CHR 0x22 then None
          else
            (case parseChars [] r of
               None \<Rightarrow> None
             | Some (key, rest) \<Rightarrow>
                 (case skipWs rest of
                    [] \<Rightarrow> None
                  | c # r' \<Rightarrow>
                      if c \<noteq> CHR '':'' then None
                      else
                        (case parseValue n r' of
                           None \<Rightarrow> None
                         | Some (v, rest') \<Rightarrow>
                             (case skipWs rest' of
                                [] \<Rightarrow> None
                              | c' # r'' \<Rightarrow>
                                  if c' = CHR '','' then parseMembers n (acc @ [(key, v)]) r''
                                  else if c' = CHR ''}'' then Some (acc @ [(key, v)], r'')
                                  else None)))))"

text \<open>\<open>JSON.parse(text)\<close>: \<open>None\<close> stands for the \<open>SyntaxError\<close> it throws.\<close>

definition JSON_parse :: "string \<Rightarrow> json option" where
  "JSON_parse s =
     (case parseValue (2 * length s + 2) s of
        None \<Rightarrow> None
      | Some (v, rest) \<Rightarrow> if skipWs rest = [] then Some v else None)"

section \<open>Back-end triage service (\<open>services/triageService.js\<close>)\<close>

text \<open>
  The final assessment stored on a session. Its fields are copied from the analysis object of
  the language model, so each is whatever JSON value the model gave, or absent.
\<close>

record triageResult =
  res_urgencyLevel :: "json option"
  res_recommendedAction :: "json option"
  res_reasoning :: "json option"

record session =
  id_session :: string
  patientId :: string
  patientInfo :: patientData
  messages :: "chatMessage list"
  createdAt :: nat
  lastUpdated :: nat
  complete :: bool
  triageResult :: "triageResult option"

text \<open>\<open>activeSessions\<close>: the in-memory map from session ids to sessions.\<close>

type_synonym store = "string \<rightharpoonup> session"

text \<open>
  What the service calls: the id generator, the clock, \<open>generateResponse\<close> and
  \<open>generateAnalysis\<close> of \<open>llmService\<close>, and \<open>retrieveRelevantMedicalInfo\<close> of \<open>ragService\<close>.
  Each asynchronous call either yields a value or throws (\<open>Inl\<close>). The theorems on the session
  controller hold whatever these functions do; \<open>generateAnalysis\<close> and
  \<open>retrieveRelevantMedicalInfo\<close> themselves are modelled in their own sections below.
\<close>

record services =
  uuidv4 :: string
  now :: nat
  generateResponse :: "string \<Rightarrow> chatMessage list \<Rightarrow> string option \<Rightarrow> error + string"
  generateAnalysis :: "chatMessage list \<Rightarrow> string \<Rightarrow> error + json"
  retrieveRelevantMedicalInfo :: "string \<Rightarrow> chatMessage list \<Rightarrow> error + string"

definition nl :: string where
  "nl = [CHR 0x0A]"

text \<open>A value interpolated into a template literal; an absent one prints as \<open>undefined\<close>.\<close>

definition interpolate :: "string option \<Rightarrow> string" where
  "interpolate v = (case v of None \<Rightarrow> ''undefined'' | Some s \<Rightarrow> s)"

definition generateSystemContext :: "patientData \<Rightarrow> string" where
  "generateSystemContext p =
     ''You are AutoMed, an advanced medical triage AI assistant. Your role is to assess patient symptoms and determine the appropriate level of care needed.'' @ nl @
     ''  '' @ nl @
     ''Patient Information:'' @ nl @
     ''- Name: '' @ interpolate (name p) @ nl @
     ''- Age: '' @ interpolate (age p) @ nl @
     ''- Gender: '' @ interpolate (gender p) @ nl @
     ''- Medical History: '' @ or_default (medicalHistory p) ''None provided'' @ nl @
     nl @
     ''Guidelines:'' @ nl @
     ''1. Ask clear, relevant questions about symptoms'' @ nl @
     ''2. Be empathetic but professional'' @ nl @
     ''3. Prioritize patient safety above all'' @ nl @
     ''4. Classify urgency into one of these categories: Emergency, Urgent, Semi-urgent, Non-urgent'' @ nl @
     ''5. Recommend appropriate actions based on urgency level'' @ nl @
     ''6. Do not make definitive diagnoses'' @ nl @
     ''7. Recommend emergency services for potentially life-threatening conditions''"

definition greetingInstruction :: string where
  "greetingInstruction =
     ''Introduce yourself as a medical triage AI assistant and ask about the patient's main concern.''"

definition createSession ::
  "services \<Rightarrow> store \<Rightarrow> patientData \<Rightarrow> string \<Rightarrow> (error + string \<times> string) \<times> store" where
  "createSession sv st info userId =
     (let sessionId = uuidv4 sv;
          systemContext = generateSystemContext info
      in case generateResponse sv systemContext [] (Some greetingInstruction) of
           Inl e \<Rightarrow> (Inl e, st)
         | Inr initialMessage \<Rightarrow>
             (Inr (sessionId, initialMessage),
              st(sessionId \<mapsto>
                 \<lparr>id_session = sessionId,
                  patientId = userId,
                  patientInfo = info,
                  messages = [\<lparr>role = ''system'', content = systemContext\<rparr>,
                              \<lparr>role = ''assistant'', content = initialMessage\<rparr>],
                  createdAt = now sv,
                  lastUpdated = now sv,
                  complete = False,
                  triageResult = None\<rparr>)))"

definition analysisPrompt :: string where
  "analysisPrompt =
     ''Based on the conversation so far, determine if you have enough information to complete the triage process. If yes, provide an urgency assessment and recommended action. If not, what additional information is needed?''"

text \<open>
  What \<open>analyzeForTriageCompletion\<close> returns: \<open>{canComplete: true, result}\<close> or
  \<open>{canComplete: false, missingInformation}\<close>.
\<close>

record analysisResult =
  canComplete :: bool
  result :: "triageResult option"
  missingInformation :: "json option"

text \<open>
  Once \<open>analysis.canComplete\<close> has been read the analysis is not \<open>null\<close>, and reading its other
  properties cannot throw.
\<close>

definition propOf :: "json \<Rightarrow> string \<Rightarrow> json option" where
  "propOf v key = (case getProp v key of Inl e \<Rightarrow> None | Inr x \<Rightarrow> x)"

definition analyzeForTriageCompletion :: "services \<Rightarrow> chatMessage list \<Rightarrow> error + analysisResult" where
  "analyzeForTriageCompletion sv msgs =
     (case generateAnalysis sv msgs analysisPrompt of
        Inl e \<Rightarrow> Inl e
      | Inr analysis \<Rightarrow>
          (case getProp analysis ''canComplete'' of
             Inl e \<Rightarrow> Inl e
           | Inr c \<Rightarrow>
               if isTruthy c then
                 Inr \<lparr>canComplete = True,
                      result = Some \<lparr>res_urgencyLevel = propOf analysis ''urgencyLevel'',
                                     res_recommendedAction = propOf analysis ''recommendedAction'',
                                     res_reasoning = propOf analysis ''reasoning''\<rparr>,
                      missingInformation = None\<rparr>
               else
                 Inr \<lparr>canComplete = False,
                      result = None,
                      missingInformation = propOf analysis ''missingInformation''\<rparr>))"

text \<open>What \<open>processUserMessage\<close> returns to the controller.\<close>

record turnResponse =
  message :: string
  triageComplete :: bool
  urgency :: "json option"
  recommendedAction :: "json option"

text \<open>
  \<open>processUserMessage\<close>. The session object is mutated in place as the function proceeds, so
  when a collaborator throws, the changes made so far stay in the store. \<open>saveTriage\<close> catches
  its own errors and does not touch the session; it is left out.
\<close>

definition appendMessage :: "session \<Rightarrow> string \<Rightarrow> string \<Rightarrow> session" where
  "appendMessage s r c = s\<lparr>messages := messages s @ [\<lparr>role = r, content = c\<rparr>]\<rparr>"

text \<open>\<open>session.messages[0].content = c\<close>, on a session that has a message.\<close>

definition setSystemContent :: "session \<Rightarrow> string \<Rightarrow> session" where
  "setSystemContent s c = s\<lparr>messages := (messages s)[0 := (hd (messages s))\<lparr>content := c\<rparr>]\<rparr>"

definition enhance :: "session \<Rightarrow> string \<Rightarrow> string" where
  "enhance s relevantInfo =
     content (hd (messages s)) @ nl @ nl @ ''Relevant medical information: '' @ relevantInfo"

definition processUserMessage ::
  "services \<Rightarrow> store \<Rightarrow> string \<Rightarrow> string \<Rightarrow> (error + turnResponse) \<times> store" where
  "processUserMessage sv st sessionId text =
     (case st sessionId of
        None \<Rightarrow> (Inl (Error ''Session not found''), st)
      | Some s0 \<Rightarrow>
          let s1 = appendMessage s0 ''user'' text
          in case retrieveRelevantMedicalInfo sv text (messages s1) of
               Inl e \<Rightarrow> (Inl e, st(sessionId \<mapsto> s1))
             | Inr relevantInfo \<Rightarrow>
                 let enhancedSystemContext = enhance s1 relevantInfo;
                     s2 = setSystemContent s1 enhancedSystemContext
                 in case generateResponse sv enhancedSystemContext (tl (messages s2)) None of
                      Inl e \<Rightarrow> (Inl e, st(sessionId \<mapsto> s2))
                    | Inr response \<Rightarrow>
                        (case analyzeForTriageCompletion sv (messages s2) of
                           Inl e \<Rightarrow> (Inl e, st(sessionId \<mapsto> s2))
                         | Inr analysis \<Rightarrow>
                             let s3 = (appendMessage s2 ''assistant'' response)\<lparr>lastUpdated := now sv\<rparr>
                             in if canComplete analysis then
                                  (Inr \<lparr>message = response,
                                        triageComplete = True,
                                        urgency =
                                          (case result analysis of
                                             None \<Rightarrow> None | Some r \<Rightarrow> res_urgencyLevel r),
                                        recommendedAction =
                                          (case result analysis of
                                             None \<Rightarrow> None | Some r \<Rightarrow> res_recommendedAction r)\<rparr>,
                                   st(sessionId \<mapsto> s3\<lparr>complete := True,
                                                         triageResult := result analysis\<rparr>))
                                else
                                  (Inr \<lparr>message = response,
                                        triageComplete = False,
                                        urgency = None,
                                        recommendedAction = None\<rparr>,
                                   st(sessionId \<mapsto> s3))))"

definition getTriageResult :: "store \<Rightarrow> string \<Rightarrow> triageResult option" where
  "getTriageResult st sessionId =
     (case st sessionId of
        None \<Rightarrow> None
      | Some s \<Rightarrow> if \<not> complete s then None else triageResult s)"

text \<open>
  The stores the service can be in: it starts with no session, and every call of
  \<open>createSession\<close> or \<open>processUserMessage\<close>, whatever the collaborators answer and whether or not
  the call throws, leads to the next one.
\<close>

inductive reachable :: "store \<Rightarrow> bool" where
  initial: "reachable Map.empty"
| created: "reachable st \<Longrightarrow> createSession sv st info userId = (r, st') \<Longrightarrow> reachable st'"
| processed: "reachable st \<Longrightarrow> processUserMessage sv st sessionId text = (r, st') \<Longrightarrow> reachable st'"

section \<open>Language-model interface (\<open>services/llmInterface.js\<close>)\<close>

definition errorMessage :: "error \<Rightarrow> string" where
  "errorMessage e =
     (case e of
        Error m \<Rightarrow> m
      | TypeError m \<Rightarrow> m
      | DimensionMismatch \<Rightarrow> ''DimensionMismatch''
      | EmptyIndex \<Rightarrow> ''EmptyIndex'')"

function natToString :: "nat \<Rightarrow> string" where
  "natToString n =
     (if n < 10 then [''0123456789'' ! n]
      else natToString (n div 10) @ [''0123456789'' ! (n mod 10)])"
  by pat_completeness auto
termination
  by (relation "measure (\<lambda>n. n)") auto

text \<open>\<open>text.indexOf(sub)\<close>: the first position where \<open>sub\<close> occurs, \<open>None\<close> for \<open>-1\<close>.\<close>

fun indexOf :: "string \<Rightarrow> string \<Rightarrow> nat option" where
  "indexOf [] sub = (if sub = [] then Some 0 else None)"
| "indexOf (c # cs) sub =
     (if take (length sub) (c # cs) = sub then Some 0 else map_option Suc (indexOf cs sub))"

definition trim :: "string \<Rightarrow> string" where
  "trim s = rev (dropWhile isWhiteSpace (rev (dropWhile isWhiteSpace s)))"

definition cutAt :: "string \<Rightarrow> string \<Rightarrow> string" where
  "cutAt text marker = (case indexOf text marker of None \<Rightarrow> text | Some i \<Rightarrow> trim (take i text))"

definition sanitizeResponse :: "string \<Rightarrow> string" where
  "sanitizeResponse text =
     (if text = [] then [] else foldl cutAt text [''Human:'', ''User:'', ''HUMAN:'', ''USER:''])"

text \<open>
  The providers the interface supports; \<open>initialize\<close> throws for any other. It is called before
  the \<open>try\<close> block of each operation, so its error reaches the caller.
\<close>

definition LLM_initialize :: "string \<Rightarrow> error + unit" where
  "LLM_initialize provider =
     (if provider = ''openai'' \<or> provider = ''langchain-openai'' \<or> provider = ''langchain-local''
      then Inr ()
      else Inl (Error (''LLM initialization error: Unsupported LLM provider: '' @ provider)))"

text \<open>
  The retry loop of \<open>generateResponse\<close>. The provider's answer to the \<open>attempt\<close>-th request is
  \<open>reply attempt\<close>: the raw text, or the error thrown. A failed attempt that is not the last one
  is retried (after a delay for a rate limit or a server error); the last one throws. The
  constructor sets \<open>maxRetries\<close> to \<open>config.maxRetries || 3\<close>, so it is never zero and the loop
  always ends in a \<open>return\<close> or a \<open>throw\<close>; the last argument counts the attempts left.
\<close>

definition maxRetriesOf :: "nat \<Rightarrow> nat" where
  "maxRetriesOf configured = (if configured = 0 then 3 else configured)"

fun attempts :: "(nat \<Rightarrow> error + string) \<Rightarrow> nat \<Rightarrow> nat \<Rightarrow> nat \<Rightarrow> error + string" where
  "attempts reply maxRetries attempt 0 = Inr []"
| "attempts reply maxRetries attempt (Suc left) =
     (case reply attempt of
        Inr response \<Rightarrow> Inr (sanitizeResponse response)
      | Inl e \<Rightarrow>
          if attempt = maxRetries then
            Inl (Error (''Failed to generate LLM response after '' @ natToString maxRetries
                        @ '' attempts: '' @ errorMessage e))
          else attempts reply maxRetries (Suc attempt) left)"

definition LLM_generateResponse :: "string \<Rightarrow> nat \<Rightarrow> (nat \<Rightarrow> error + string) \<Rightarrow> error + string" where
  "LLM_generateResponse provider maxRetries reply =
     (case LLM_initialize provider of
        Inl e \<Rightarrow> Inl e
      | Inr u \<Rightarrow> attempts reply (maxRetriesOf maxRetries) 1 (maxRetriesOf maxRetries))"

definition createFallbackAnalysis :: json where
  "createFallbackAnalysis =
     JObj [(''canComplete'', JBool False),
           (''missingInformation'', JArr [JStr ''Unable to complete analysis due to system error''])]"

text \<open>
  The match of the regular expression \<open>/({[\s\S]*})/\<close>: it starts at the first opening brace
  and, the star being greedy, ends at the last closing brace after it; there is no match when no
  closing brace follows the first opening one.
\<close>

definition matchBraces :: "string \<Rightarrow> string option" where
  "matchBraces s =
     (case dropWhile (\<lambda>c. c \<noteq> CHR ''{'') s of
        [] \<Rightarrow> None
      | b # rest \<Rightarrow>
          (case dropWhile (\<lambda>c. c \<noteq> CHR ''}'') (rev rest) of
             [] \<Rightarrow> None
           | e # inner \<Rightarrow> Some (b # rev (e # inner))))"

text \<open>
  \<open>generateStructuredAnalysis\<close> of the interface. For the two OpenAI providers the reply is the
  content of the one completion requested; for a local model the reply goes through
  \<open>generateResponse\<close> and the JSON text is searched in it.
\<close>

definition LLM_generateStructuredAnalysis ::
  "string \<Rightarrow> nat \<Rightarrow> (nat \<Rightarrow> error + string) \<Rightarrow> error + json" where
  "LLM_generateStructuredAnalysis provider maxRetries reply =
     (case LLM_initialize provider of
        Inl e \<Rightarrow> Inl e
      | Inr u \<Rightarrow>
          if provider = ''openai'' \<or> provider = ''langchain-openai'' then
            (case reply 1 of
               Inl e \<Rightarrow> Inr createFallbackAnalysis
             | Inr analysisText \<Rightarrow>
                 (case JSON_parse analysisText of
                    None \<Rightarrow> Inr createFallbackAnalysis
                  | Some v \<Rightarrow> Inr v))
          else
            (case LLM_generateResponse provider maxRetries reply of
               Inl e \<Rightarrow> Inr createFallbackAnalysis
             | Inr analysisResult \<Rightarrow>
                 (case matchBraces analysisResult of
                    None \<Rightarrow> Inr createFallbackAnalysis
                  | Some jsonMatch \<Rightarrow>
                      (case JSON_parse jsonMatch of
                         None \<Rightarrow> Inr createFallbackAnalysis
                       | Some v \<Rightarrow> Inr v))))"

section \<open>LangChain adapter (\<open>utils/langChainAdapter.js\<close>)\<close>

text \<open>
  \<open>initialize\<close>, given \<open>config.modelType\<close>. The model type is
  \<open>this.config.modelType || 'openai'\<close>; a model type that is not configured is written as the
  empty string, which \<open>||\<close> replaces by the default just as it replaces \<open>undefined\<close>.
\<close>

definition Adapter_modelType :: "string \<Rightarrow> string" where
  "Adapter_modelType configured = or_default (Some configured) ''openai''"

definition Adapter_initialize :: "string \<Rightarrow> error + unit" where
  "Adapter_initialize configured =
     (if Adapter_modelType configured = ''openai'' \<or> Adapter_modelType configured = ''huggingface''
         \<or> Adapter_modelType configured = ''llama''
      then Inr ()
      else Inl (Error (''LangChain initialization error: Unsupported model type: ''
                       @ Adapter_modelType configured)))"

definition formatErrorAnalysis :: json where
  "formatErrorAnalysis =
     JObj [(''canComplete'', JBool False),
           (''missingInformation'', JArr [JStr ''Unable to analyze due to response format error''])]"

definition systemErrorAnalysis :: json where
  "systemErrorAnalysis =
     JObj [(''canComplete'', JBool False),
           (''missingInformation'', JArr [JStr ''Unable to analyze due to system error''])]"

text \<open>
  \<open>generateStructuredAnalysis\<close> of the adapter: \<open>reply\<close> is what the chain call gives, the text
  of the model (empty when it gave none) or the error thrown.
\<close>

definition Adapter_generateStructuredAnalysis :: "string \<Rightarrow> error + string \<Rightarrow> error + json" where
  "Adapter_generateStructuredAnalysis modelType reply =
     (case Adapter_initialize modelType of
        Inl e \<Rightarrow> Inl e
      | Inr u \<Rightarrow>
          (case reply of
             Inl e \<Rightarrow> Inr systemErrorAnalysis
           | Inr resultText \<Rightarrow>
               (case matchBraces resultText of
                  Some jsonMatch \<Rightarrow>
                    (case JSON_parse jsonMatch of
                       None \<Rightarrow> Inr formatErrorAnalysis
                     | Some v \<Rightarrow> Inr v)
                | None \<Rightarrow>
                    (case JSON_parse resultText of
                       None \<Rightarrow> Inr formatErrorAnalysis
                     | Some v \<Rightarrow> Inr v))))"

text \<open>
  A soft failure of the analysis: an object that says the triage cannot be completed and names,
  in a non-empty list, what is missing.
\<close>

definition nonEmptyArray :: "json option \<Rightarrow> bool" where
  "nonEmptyArray v = (case v of Some (JArr l) \<Rightarrow> l \<noteq> [] | _ \<Rightarrow> False)"

definition isSoftFailure :: "json \<Rightarrow> bool" where
  "isSoftFailure v =
     (case v of
        JObj members \<Rightarrow>
          map_of (rev members) ''canComplete'' = Some (JBool False) \<and>
          nonEmptyArray (map_of (rev members) ''missingInformation'')
      | _ \<Rightarrow> False)"

section \<open>Language-model service (\<open>services/llmService.js\<close>)\<close>

text \<open>
  \<open>generateAnalysis\<close>, the function the session controller calls. \<open>reply\<close> is what the call
  of the provider gives: the text of the model, or the error thrown. With the provider
  \<open>openai\<close> the text is parsed by \<open>JSON.parse\<close>; with \<open>langchain\<close> the adapter, configured with
  the same \<open>config\<close>, does the work. Whatever is thrown on the way is caught and answered by the
  default object. With any other provider the function returns nothing (\<open>undefined\<close>, here
  \<open>None\<close>).
\<close>

definition Llm_generateAnalysis :: "string \<Rightarrow> string \<Rightarrow> error + string \<Rightarrow> json option" where
  "Llm_generateAnalysis provider modelType reply =
     (if provider = ''openai'' then
        (case reply of
           Inl e \<Rightarrow> Some systemErrorAnalysis
         | Inr analysisText \<Rightarrow>
             (case JSON_parse analysisText of
                None \<Rightarrow> Some systemErrorAnalysis
              | Some v \<Rightarrow> Some v))
      else if provider = ''langchain'' then
        (case Adapter_generateStructuredAnalysis modelType reply of
           Inl e \<Rightarrow> Some systemErrorAnalysis
         | Inr v \<Rightarrow> Some v)
      else None)"

section \<open>Medical embeddings and retrieval (\<open>utils/medicalEmbeddings.js\<close>)\<close>

text \<open>
  Embedding vectors. The source has double-precision numbers and narrows them to 32-bit floats
  when it hands them to the index. The model has real numbers: the narrowing is \<open>toFloat32\<close>
  below; the arithmetic the source does on doubles (the normalisation for the inner product) is
  done on reals, without rounding, so the rounding of that arithmetic, overflow and \<open>NaN\<close> are
  outside the model.
\<close>

type_synonym vec = "real list"

text \<open>
  \<open>new Float32Array(xs)\<close>: every number is rounded to the nearest 32-bit float, a tie to the
  float with the even significand. A float has a significand of 24 bits: where
  \<open>2^e \<le> |x| < 2^(e+1)\<close> the floats are \<open>2^(e-23)\<close> apart, and below \<open>2^-126\<close> they stay
  \<open>2^-149\<close> apart. \<open>binade n y\<close> is that \<open>e\<close> for a positive \<open>y\<close>, found by halving or doubling
  at most \<open>n\<close> times; 1100 steps reach every double. A number that rounds beyond the largest
  float becomes \<open>Infinity\<close> in the source, which the model does not have.
\<close>

fun binade :: "nat \<Rightarrow> real \<Rightarrow> int" where
  "binade 0 y = 0"
| "binade (Suc n) y =
     (if 2 \<le> y then binade n (y / 2) + 1
      else if y < 1 then binade n (y * 2) - 1
      else 0)"

definition roundTiesToEven :: "real \<Rightarrow> int" where
  "roundTiesToEven y =
     (if y - of_int \<lfloor>y\<rfloor> < 1 / 2 then \<lfloor>y\<rfloor>
      else if 1 / 2 < y - of_int \<lfloor>y\<rfloor> then \<lfloor>y\<rfloor> + 1
      else if even \<lfloor>y\<rfloor> then \<lfloor>y\<rfloor>
      else \<lfloor>y\<rfloor> + 1)"

definition ulpAt :: "int \<Rightarrow> real" where
  "ulpAt e = (if 23 \<le> e then 2 ^ nat (e - 23) else 1 / 2 ^ nat (23 - e))"

definition toFloat32 :: "real \<Rightarrow> real" where
  "toFloat32 x =
     (if x = 0 then 0
      else of_int (roundTiesToEven (x / ulpAt (max (binade 1100 \<bar>x\<bar>) (- 126))))
           * ulpAt (max (binade 1100 \<bar>x\<bar>) (- 126)))"

definition Float32Array :: "real list \<Rightarrow> real list" where
  "Float32Array xs = map toFloat32 xs"

text \<open>
  A document of the knowledge base as retrieval handles it: its metadata, the distance the
  search attaches and the marker the truncation attaches (absent until then).
\<close>

record doc =
  doc_id :: "string option"
  doc_content :: "string option"
  doc_text :: "string option"
  doc_source :: "string option"
  doc_type :: "string option"
  distance :: "real option"
  truncated :: bool

subsection \<open>The vector index\<close>

datatype indexKind = IndexFlatL2 | IndexFlatIP

record faissIndex =
  kind :: indexKind
  dim :: nat
  vectors :: "vec list"




definition l2sq :: "vec \<Rightarrow> vec \<Rightarrow> real" where
  "l2sq u v = sum_list (map (\<lambda>(a, b). (a - b) * (a - b)) (zip u v))"

definition innerProduct :: "vec \<Rightarrow> vec \<Rightarrow> real" where
  "innerProduct u v = sum_list (map (\<lambda>(a, b). a * b) (zip u v))"

text \<open>
  The score the index reports for a stored vector, and the key it ranks by: the squared
  Euclidean distance, smallest first, or the inner product, largest first.
\<close>

definition score :: "indexKind \<Rightarrow> vec \<Rightarrow> vec \<Rightarrow> real" where
  "score k q v = (case k of IndexFlatL2 \<Rightarrow> l2sq q v | IndexFlatIP \<Rightarrow> innerProduct q v)"

definition rankKey :: "indexKind \<Rightarrow> vec \<Rightarrow> vec \<Rightarrow> real" where
  "rankKey k q v = (case k of IndexFlatL2 \<Rightarrow> l2sq q v | IndexFlatIP \<Rightarrow> - innerProduct q v)"

text \<open>
  Modelled from the spec: \<open>search\<close> of the vector index (the faiss-node library, not part of the
  sources). It returns the \<open>k\<close> chunks with smallest distance (or highest similarity), ties
  broken by original insertion order; it fails with \<open>EmptyIndex\<close> if no chunks are indexed;
  \<open>k\<close> is clamped to the available chunk count. The result is the positions of the chunks and
  their scores. The scores are computed exactly from the 32-bit floats the index holds; the
  rounding of the library's own arithmetic is not described by the specification and is not
  modelled.
\<close>

definition index_search :: "faissIndex \<Rightarrow> vec \<Rightarrow> nat \<Rightarrow> error + nat list \<times> real list" where
  "index_search idx q k =
     (if vectors idx = [] then Inl EmptyIndex
      else
        let n = length (vectors idx);
            ranked = sort_key (\<lambda>i. rankKey (kind idx) q (vectors idx ! i)) [0..<n];
            ids = take (min k n) ranked
        in Inr (ids, map (\<lambda>i. score (kind idx) q (vectors idx ! i)) ids))"

subsection \<open>\<open>MedicalEmbeddingsUtility\<close>\<close>

text \<open>
  The embedding model: a text is turned into a vector, or the call throws. Loading the model
  (\<open>initializeModel\<close>) can throw as well.
\<close>

type_synonym embedder = "string \<Rightarrow> error + vec"

record embeddingsUtil =
  embeddingDim :: nat
  model :: "embedder option"
  index :: "faissIndex option"
  documentEmbeddings :: "vec list option"
  documentMetadata :: "doc list option"

text \<open>
  \<open>_normalizeEmbeddings\<close> and the same computation on the query in \<open>search\<close>, on real numbers.
  The source rounds every sum, the square root and every quotient to a double, and for a vector
  of norm zero it divides by zero and gets \<open>NaN\<close>; below, the normalisation is evaluated only
  on vectors for which the doubles are exact.
\<close>

definition norm2 :: "vec \<Rightarrow> real" where
  "norm2 v = sqrt (foldl (\<lambda>s x. s + x * x) 0 v)"

definition normalizeEmbedding :: "vec \<Rightarrow> vec" where
  "normalizeEmbedding v = map (\<lambda>x. x / norm2 v) v"



text \<open>The model to use: the one already loaded, or the one \<open>initializeModel\<close> loads now.\<close>

definition theModel :: "error + embedder \<Rightarrow> embeddingsUtil \<Rightarrow> error + embedder" where
  "theModel pipeline u = (case model u of Some m \<Rightarrow> Inr m | None \<Rightarrow> pipeline)"

record searchResult =
  results :: "doc list"
  distances :: "real list"

text \<open>
  \<open>search(query, k, includeDistances)\<close> with \<open>includeDistances\<close> true, as every caller in the
  sources has it. The query embedding, normalised for an inner-product index, is handed to the
  index as a \<open>Float32Array\<close>. An error of the model or of the index is not caught.
\<close>

definition search ::
  "error + embedder \<Rightarrow> embeddingsUtil \<Rightarrow> string \<Rightarrow> nat \<Rightarrow> error + searchResult" where
  "search pipeline u query k =
     (case index u of
        None \<Rightarrow> Inl (Error ''Index must be built or loaded before searching'')
      | Some idx \<Rightarrow>
          (case documentMetadata u of
             None \<Rightarrow> Inl (Error ''Document metadata must be available for search'')
           | Some metadata \<Rightarrow>
               (case theModel pipeline u of
                  Inl e \<Rightarrow> Inl e
                | Inr m \<Rightarrow>
                    (case m query of
                       Inl e \<Rightarrow> Inl e
                     | Inr embedded \<Rightarrow>
                         let queryEmbedding =
                               (if kind idx = IndexFlatIP then normalizeEmbedding embedded
                                else embedded)
                         in case index_search idx (Float32Array queryEmbedding) k of
                              Inl e \<Rightarrow> Inl e
                            | Inr (ids, dists) \<Rightarrow>
                                Inr \<lparr>results =
                                       map (\<lambda>(i, dist). (metadata ! i)\<lparr>distance := Some dist\<rparr>)
                                         (filter (\<lambda>(i, dist). i < length metadata) (zip ids dists)),
                                     distances = dists\<rparr>))))"

subsection \<open>\<open>MedicalRAGSystem\<close>\<close>

record ragOptions =
  maxContextLength :: nat
  relevanceThreshold :: real

text \<open>\<open>doc.content || doc.text || fallback\<close>.\<close>

definition contentOr :: "doc \<Rightarrow> string \<Rightarrow> string" where
  "contentOr d fallback = or_default (doc_content d) (or_default (doc_text d) fallback)"

fun referenceLines :: "nat \<Rightarrow> doc list \<Rightarrow> string" where
  "referenceLines i [] = []"
| "referenceLines i (d # ds) =
     ''[REFERENCE '' @ natToString (i + 1) @ ''] '' @ or_default (doc_source d) ''Unknown'' @ '':''
       @ nl @ contentOr d ''No content available'' @ nl @ nl @ referenceLines (i + 1) ds"

definition generatePrompt :: "string \<Rightarrow> doc list \<Rightarrow> string" where
  "generatePrompt query retrievedDocs =
     ''You are a highly knowledgeable medical assistant helping to respond to a medical question. ''
       @ nl
       @ ''Use the provided medical reference information to answer the question accurately and thoroughly.''
       @ nl @ nl @ ''--- MEDICAL REFERENCES ---'' @ nl
       @ referenceLines 0 retrievedDocs
       @ ''--- USER QUESTION ---'' @ nl @ query @ nl @ nl
       @ ''--- YOUR RESPONSE ---'' @ nl
       @ ''Please provide a clear, accurate answer based on the medical references provided. '' @ nl
       @ ''If the references don't contain enough information to fully answer the question, acknowledge the limitations while providing the best possible answer from what's available.''"

text \<open>
  \<open>_truncateContext(docs, maxLength)\<close>. The loop carries the length used so far and the
  documents kept so far; it stops at the first document that does not fit, which is kept cut to
  the remaining space when more than 100 characters remain. The budget is a number of
  characters, a natural number.
\<close>

fun truncateLoop :: "doc list \<Rightarrow> nat \<Rightarrow> nat \<Rightarrow> doc list \<Rightarrow> doc list" where
  "truncateLoop [] maxLength totalLength truncatedDocs = truncatedDocs"
| "truncateLoop (d # ds) maxLength totalLength truncatedDocs =
     (let content = contentOr d [];
          contentLength = length content
      in if totalLength + contentLength \<le> maxLength then
           truncateLoop ds maxLength (totalLength + contentLength) (truncatedDocs @ [d])
         else
           let remainingSpace = maxLength - totalLength
           in if remainingSpace > 100 then
                truncatedDocs @ [d\<lparr>doc_content := Some (take remainingSpace content),
                                    truncated := True\<rparr>]
              else truncatedDocs)"

definition truncateContext :: "doc list \<Rightarrow> nat \<Rightarrow> doc list" where
  "truncateContext docs maxLength = truncateLoop docs maxLength 0 []"

text \<open>The relevance of a retrieved document: \<open>1.0 - Math.min(Math.max(doc.distance || 0, 0), 1.0)\<close>.\<close>

definition relevance :: "doc \<Rightarrow> real" where
  "relevance d = 1 - min (max (case distance d of None \<Rightarrow> 0 | Some x \<Rightarrow> x) 0) 1"

record contextEntry =
  metadata :: doc
  contentPreview :: string

record ragResponse =
  rag_query :: string
  answer :: string
  contextCount :: nat
  response_context :: "contextEntry list option"

text \<open>
  \<open>processQuery(query, {k, filterFn, includeMetadata})\<close>. Its \<open>catch\<close> block logs the error and
  throws it again.
\<close>

definition processQuery ::
  "error + embedder \<Rightarrow> (string \<Rightarrow> error + string) \<Rightarrow> embeddingsUtil \<Rightarrow> ragOptions \<Rightarrow> string
     \<Rightarrow> nat \<Rightarrow> (doc \<Rightarrow> bool) option \<Rightarrow> bool \<Rightarrow> error + ragResponse" where
  "processQuery pipeline generateText u opts query k filterFn includeMetadata =
     (case search pipeline u query (case filterFn of None \<Rightarrow> k | Some f \<Rightarrow> k * 2) of
        Inl e \<Rightarrow> Inl e
      | Inr searchResults \<Rightarrow>
          let retrieved = (case filterFn of
                             None \<Rightarrow> results searchResults
                           | Some f \<Rightarrow> take k (filter f (results searchResults)));
              relevant = filter (\<lambda>d. relevance d \<ge> relevanceThreshold opts) retrieved;
              truncatedDocs = truncateContext relevant (maxContextLength opts)
          in case generateText (generatePrompt query truncatedDocs) of
               Inl e \<Rightarrow> Inl e
             | Inr llmResponse \<Rightarrow>
                 Inr \<lparr>rag_query = query,
                      answer = llmResponse,
                      contextCount = length truncatedDocs,
                      response_context =
                        (if includeMetadata then
                           Some (map (\<lambda>d. \<lparr>metadata = d\<lparr>doc_content := None, doc_text := None\<rparr>,
                                            contentPreview = take 100 (contentOr d []) @ ''...''\<rparr>)
                                   truncatedDocs)
                         else None)\<rparr>)"

subsection \<open>The urgency level read from a triage response (\<open>processTriage\<close>)\<close>

definition isWordChar :: "char \<Rightarrow> bool" where
  "isWordChar c =
     (let n = (of_char c :: nat)
      in (48 \<le> n \<and> n \<le> 57) \<or> (65 \<le> n \<and> n \<le> 90) \<or> (97 \<le> n \<and> n \<le> 122) \<or> n = 95)"

text \<open>
  The test of a pattern \<open>/\bWORD\b/i\<close> whose word starts and ends with a letter: the word
  occurs, letters compared without case, and is neither preceded nor followed by a word
  character.
\<close>

fun matchesHere :: "string \<Rightarrow> string \<Rightarrow> bool" where
  "matchesHere [] s = (case s of [] \<Rightarrow> True | c # cs \<Rightarrow> \<not> isWordChar c)"
| "matchesHere (w # ws) [] = False"
| "matchesHere (w # ws) (c # cs) =
     (if toLowerChar c = toLowerChar w then matchesHere ws cs else False)"

fun matchesFrom :: "string \<Rightarrow> bool \<Rightarrow> string \<Rightarrow> bool" where
  "matchesFrom word afterWordChar [] = False"
| "matchesFrom word afterWordChar (c # cs) =
     (if afterWordChar then matchesFrom word (isWordChar c) cs
      else if matchesHere word (c # cs) then True
      else matchesFrom word (isWordChar c) cs)"

definition regexTest :: "string \<Rightarrow> string \<Rightarrow> bool" where
  "regexTest word s = matchesFrom word False s"

definition urgencyPatterns :: "(string \<times> string) list" where
  "urgencyPatterns =
     [(''EMERGENCY'', ''EMERGENCY''),
      (''URGENT'', ''URGENT''),
      (''SEMI-URGENT'', ''SEMI-URGENT''),
      (''NON-URGENT'', ''NON-URGENT'')]"

text \<open>
  The loop over \<open>Object.entries(urgencyPatterns)\<close>: every pattern that matches overwrites the
  level found so far.
\<close>

definition extractUrgencyLevel :: "string \<Rightarrow> string" where
  "extractUrgencyLevel triageResponse =
     foldl (\<lambda>level (lvl, word). if regexTest word triageResponse then lvl else level)
       ''UNKNOWN'' urgencyPatterns"

section \<open>Retrieval service (\<open>services/ragService.js\<close>)\<close>

text \<open>
  The retrieval the session controller calls. \<open>config.rag\<close> names the vector store and the
  provider of the embeddings. The libraries behind them (the Chroma client, the HNSWLib store,
  the OpenAI embeddings) are not part of the service: each of their calls yields a value or
  throws. What a store answers to a query is a list of documents, or some other value (\<open>None\<close>)
  on which \<open>results.map\<close> throws. A document may lack its metadata (\<open>None\<close>, reading \<open>source\<close>
  then throws), the source in it, or its content.
\<close>

record ragConfig =
  rag_provider :: string
  rag_embeddingProvider :: string

record ragDocument =
  metadataSource :: "string option option"
  pageContent :: "string option"

record ragLibraries =
  getOrCreateCollection :: "error + unit"
  hnswLoad :: "error + unit"
  createEmbeddings :: "error + unit"
  embedQuery :: "string \<Rightarrow> error + vec"
  chromaQuery :: "vec \<Rightarrow> nat \<Rightarrow> error + ragDocument list option"
  similaritySearch :: "string \<Rightarrow> nat \<Rightarrow> error + ragDocument list option"

definition initializeRAG :: "ragConfig \<Rightarrow> ragLibraries \<Rightarrow> error + unit" where
  "initializeRAG cfg lib =
     (case (if rag_provider cfg = ''chroma'' then getOrCreateCollection lib
            else if rag_provider cfg = ''local'' then hnswLoad lib
            else Inr ()) of
        Inl e \<Rightarrow> Inl e
      | Inr u \<Rightarrow>
          if rag_embeddingProvider cfg = ''openai'' then createEmbeddings lib else Inr ())"

text \<open>
  \<open>ensureInitialized\<close>. The flag \<open>isInitialized\<close> is the state of the module: it is returned
  with the outcome, and is set once \<open>initializeRAG\<close> has come back.
\<close>

definition ensureInitialized :: "ragConfig \<Rightarrow> ragLibraries \<Rightarrow> bool \<Rightarrow> (error + unit) \<times> bool" where
  "ensureInitialized cfg lib isInitialized =
     (if isInitialized then (Inr (), True)
      else case initializeRAG cfg lib of
             Inl e \<Rightarrow> (Inl e, False)
           | Inr u \<Rightarrow> (Inr (), True))"

text \<open>\<open>xs.join(sep)\<close>.\<close>

fun joinWith :: "string \<Rightarrow> string list \<Rightarrow> string" where
  "joinWith sep [] = []"
| "joinWith sep [x] = x"
| "joinWith sep (x # y # ys) = x @ sep @ joinWith sep (y # ys)"

definition commonSymptoms :: "string list" where
  "commonSymptoms =
     [''pain'', ''fever'', ''cough'', ''headache'', ''nausea'', ''dizzy'', ''vomiting'',
      ''chest'', ''breathing'', ''shortness'', ''breath'', ''fatigue'', ''weakness'',
      ''swelling'', ''blood'', ''pressure'', ''diabetes'', ''heart'', ''cancer'',
      ''infection'', ''allergy'', ''medication'', ''chronic'', ''acute'']"

definition extractMedicalTerms :: "string \<Rightarrow> chatMessage list \<Rightarrow> string list" where
  "extractMedicalTerms query conversationHistory =
     filter
       (\<lambda>symptom. regexTest symptom (joinWith '' '' (map content conversationHistory) @ '' '' @ query))
       commonSymptoms"

definition enhancedQuery :: "string \<Rightarrow> chatMessage list \<Rightarrow> string" where
  "enhancedQuery query conversationHistory =
     query @ '' '' @ joinWith '' '' (extractMedicalTerms query conversationHistory)"

text \<open>
  The embedding step, \<open>embeddingModel.embedQuery(enhancedQuery)\<close>: the model exists only if the
  embeddings are configured to come from \<open>openai\<close>.
\<close>

definition embedStep :: "ragConfig \<Rightarrow> ragLibraries \<Rightarrow> string \<Rightarrow> error + vec" where
  "embedStep cfg lib q =
     (if rag_embeddingProvider cfg = ''openai'' then embedQuery lib q
      else Inl (TypeError ''Cannot read properties of undefined (reading 'embedQuery')''))"

text \<open>
  The search of the vector store, for 5 results. With a provider that is neither \<open>chroma\<close> nor
  \<open>local\<close> no search is made and \<open>results\<close> stays \<open>undefined\<close>.
\<close>

definition vectorSearch ::
  "ragConfig \<Rightarrow> ragLibraries \<Rightarrow> string \<Rightarrow> vec \<Rightarrow> error + ragDocument list option" where
  "vectorSearch cfg lib q queryEmbedding =
     (if rag_provider cfg = ''chroma'' then chromaQuery lib queryEmbedding 5
      else if rag_provider cfg = ''local'' then similaritySearch lib q 5
      else Inr None)"

definition formatDocument :: "ragDocument \<Rightarrow> error + string" where
  "formatDocument d =
     (case metadataSource d of
        None \<Rightarrow> Inl (TypeError ''Cannot read properties of undefined (reading 'source')'')
      | Some src \<Rightarrow> Inr (''Source: '' @ interpolate src @ nl @ interpolate (pageContent d)))"

fun formatDocuments :: "ragDocument list \<Rightarrow> error + string list" where
  "formatDocuments [] = Inr []"
| "formatDocuments (d # ds) =
     (case formatDocument d of
        Inl e \<Rightarrow> Inl e
      | Inr x \<Rightarrow> (case formatDocuments ds of Inl e \<Rightarrow> Inl e | Inr xs \<Rightarrow> Inr (x # xs)))"

definition formatResults :: "ragDocument list option \<Rightarrow> error + string" where
  "formatResults searched =
     (case searched of
        None \<Rightarrow> Inl (TypeError ''results.map is not a function'')
      | Some docs \<Rightarrow>
          (case formatDocuments docs of
             Inl e \<Rightarrow> Inl e
           | Inr parts \<Rightarrow> Inr (joinWith (nl @ nl) parts)))"

text \<open>The body of the \<open>try\<close> block of \<open>retrieveRelevantMedicalInfo\<close>, and what it throws.\<close>

definition tryRetrieve :: "ragConfig \<Rightarrow> ragLibraries \<Rightarrow> string \<Rightarrow> chatMessage list \<Rightarrow> error + string" where
  "tryRetrieve cfg lib query conversationHistory =
     (case embedStep cfg lib (enhancedQuery query conversationHistory) of
        Inl e \<Rightarrow> Inl e
      | Inr queryEmbedding \<Rightarrow>
          (case vectorSearch cfg lib (enhancedQuery query conversationHistory) queryEmbedding of
             Inl e \<Rightarrow> Inl e
           | Inr searched \<Rightarrow> formatResults searched))"

text \<open>
  \<open>retrieveRelevantMedicalInfo(query, conversationHistory)\<close>. \<open>ensureInitialized\<close> is awaited
  before the \<open>try\<close> block, so its error is thrown to the caller; whatever the \<open>try\<close> block
  throws is caught, logged, and answered by the empty string.
\<close>

definition Rag_retrieveRelevantMedicalInfo ::
  "ragConfig \<Rightarrow> ragLibraries \<Rightarrow> bool \<Rightarrow> string \<Rightarrow> chatMessage list \<Rightarrow> (error + string) \<times> bool" where
  "Rag_retrieveRelevantMedicalInfo cfg lib isInitialized query conversationHistory =
     (case fst (ensureInitialized cfg lib isInitialized) of
        Inl e \<Rightarrow> (Inl e, snd (ensureInitialized cfg lib isInitialized))
      | Inr u \<Rightarrow>
          (case tryRetrieve cfg lib query conversationHistory of
             Inl e \<Rightarrow> (Inr [], snd (ensureInitialized cfg lib isInitialized))
           | Inr formattedResults \<Rightarrow>
               (Inr formattedResults, snd (ensureInitialized cfg lib isInitialized))))"

text \<open>The function as the session controller sees it: what a call returns or throws.\<close>

definition ragService ::
  "ragConfig \<Rightarrow> ragLibraries \<Rightarrow> bool \<Rightarrow> string \<Rightarrow> chatMessage list \<Rightarrow> error + string" where
  "ragService cfg lib isInitialized query conversationHistory =
     fst (Rag_retrieveRelevantMedicalInfo cfg lib isInitialized query conversationHistory)"

section \<open>The triage endpoint of the Python service\<close>

text \<open>
  The sources hold a second implementation of the triage, a Python service, which also reads
  the urgency level from the free-text assessment of the model. \<open>perform_triage\<close> looks for
  the words in the lower-cased assessment, the most urgent first, and defaults to
  \<open>Non-urgent\<close>; \<open>evaluate_case\<close> of its evaluator does the same with a few more words and the
  default \<open>Unclear\<close>.
\<close>

definition perform_triage_urgency_level :: "string \<Rightarrow> string" where
  "perform_triage_urgency_level assessment =
     (if str_includes (toLowerCase assessment) ''emergent''
         \<or> str_includes (toLowerCase assessment) ''emergency'' then ''Emergent''
      else if str_includes (toLowerCase assessment) ''urgent'' then ''Urgent''
      else ''Non-urgent'')"

definition evaluate_case_urgency_detected :: "string \<Rightarrow> string" where
  "evaluate_case_urgency_detected assessment =
     (if str_includes (toLowerCase assessment) ''emergent''
         \<or> str_includes (toLowerCase assessment) ''emergency''
         \<or> str_includes (toLowerCase assessment) ''call 911'' then ''Emergent''
      else if str_includes (toLowerCase assessment) ''urgent''
              \<or> str_includes (toLowerCase assessment) ''urgent care'' then ''Urgent''
      else if str_includes (toLowerCase assessment) ''non-urgent''
              \<or> str_includes (toLowerCase assessment) ''routine'' then ''Non-urgent''
      else ''Unclear'')"

section \<open>The retrieval budget as the specification words it\<close>

text \<open>
  \<open>truncateToBudget(chunks, maxChars)\<close>: chunks are accumulated greedily in rank order until the
  character budget is exhausted; the chunk that would overflow is hard-truncated, with a
  \<open>truncated\<close> marker, if the remaining budget exceeds a minimum usefulness threshold, and
  dropped otherwise. Nothing after that chunk is taken.
\<close>

definition minimumUseful :: nat where
  "minimumUseful = 100"

definition hardTruncate :: "doc \<Rightarrow> nat \<Rightarrow> doc" where
  "hardTruncate d budget = d\<lparr>doc_content := Some (take budget (contentOr d [])), truncated := True\<rparr>"

fun truncateToBudget :: "doc list \<Rightarrow> nat \<Rightarrow> doc list" where
  "truncateToBudget [] budget = []"
| "truncateToBudget (c # cs) budget =
     (if length (contentOr c []) \<le> budget then
        c # truncateToBudget cs (budget - length (contentOr c []))
      else if budget > minimumUseful then [hardTruncate c budget]
      else [])"

text \<open>The total content length of a list of chunks, each counted as the prompt will print it.\<close>

definition totalContentLength :: "doc list \<Rightarrow> nat" where
  "totalContentLength ds = sum_list (map (\<lambda>d. length (contentOr d [])) ds)"

section \<open>Configuration (\<open>config/llm.js\<close>)\<close>

text \<open>
  \<open>triage.maxConversationTurns\<close>, commented in the source as the ``limit of conversation turns
  before forced assessment'': \<open>parseInt(process.env.MAX_CONVERSATION_TURNS || '10')\<close>.
\<close>

definition maxConversationTurns :: "string option \<Rightarrow> int option" where
  "maxConversationTurns env = parseInt (Some (or_default env ''10''))"

section \<open>Driving a session\<close>

text \<open>The number of user turns a session has seen, and a caller that submits one message after
  the other to the same session.\<close>

definition userTurns :: "session \<Rightarrow> nat" where
  "userTurns s = length (filter (\<lambda>r. r = ''user'') (map role (messages s)))"

text \<open>
  The session once the user message is stored, and once the system message carries the
  retrieved information: the states in which the retrieval, and then the language model, are
  called.
\<close>

definition received :: "session \<Rightarrow> string \<Rightarrow> session" where
  "received s msg = appendMessage s ''user'' msg"


text \<open>The session after a turn in which no collaborator threw.\<close>

definition afterTurn :: "session \<Rightarrow> string \<Rightarrow> string \<Rightarrow> string \<Rightarrow> nat \<Rightarrow> session" where
  "afterTurn s msg relevantInfo response time =
     (appendMessage
        (setSystemContent (appendMessage s ''user'' msg)
           (enhance (appendMessage s ''user'' msg) relevantInfo))
        ''assistant'' response)\<lparr>lastUpdated := time\<rparr>"

fun submitAll :: "services \<Rightarrow> store \<Rightarrow> string \<Rightarrow> string list \<Rightarrow> store" where
  "submitAll sv st sessionId [] = st"
| "submitAll sv st sessionId (t # ts) =
     submitAll sv (snd (processUserMessage sv st sessionId t)) sessionId ts"

section \<open>Example inputs\<close>

definition elderlyPatient :: patientData where
  "elderlyPatient =
     \<lparr>name = Some ''Ann'', age = Some ''70'', gender = Some ''female'', medicalHistory = None,
      chiefComplaint = Some ''Sore throat''\<rparr>"

definition breathlessChat :: "chatMessage list" where
  "breathlessChat =
     [\<lparr>role = ''assistant'', content = ''What brings you here today?''\<rparr>,
      \<lparr>role = ''user'', content = ''I CAN'T BREATHE''\<rparr>]"

definition breathlessTurn :: "chatMessage list" where
  "breathlessTurn = [\<lparr>role = ''user'', content = ''I can't breathe''\<rparr>]"

definition mildAnalysis :: complaintAnalysis where
  "mildAnalysis =
     \<lparr>potentialUrgency = Some ''non-urgent'', redFlags = None, followUpQuestions = []\<rparr>"

definition rashAnalysis :: complaintAnalysis where
  "rashAnalysis =
     \<lparr>potentialUrgency = Some ''semi-urgent'',
      redFlags = Some [''spreading rash'', ''difficulty swallowing''],
      followUpQuestions = []\<rparr>"

definition plainDoc :: "string \<Rightarrow> doc" where
  "plainDoc c =
     \<lparr>doc_id = None, doc_content = Some c, doc_text = None, doc_source = Some ''CDC'',
      doc_type = None, distance = None, truncated = False\<rparr>"

definition budgetDocs :: "doc list" where
  "budgetDocs =
     [plainDoc (replicate 30 CHR ''a''), plainDoc (replicate 200 CHR ''b''),
      plainDoc (replicate 5 CHR ''c'')]"

text \<open>
  Collaborators that always answer the same: the model replies \<open>Tell me more.\<close>, the retrieval
  finds one sentence, and the analysis is the given object.
\<close>

definition scripted :: "json \<Rightarrow> services" where
  "scripted analysis =
     \<lparr>uuidv4 = ''session-1'',
      now = 1,
      generateResponse = (\<lambda>systemPrompt msgs instruction. Inr ''Tell me more.''),
      generateAnalysis = (\<lambda>msgs prompt. Inr analysis),
      retrieveRelevantMedicalInfo = (\<lambda>query msgs. Inr ''Rest and fluids.'')\<rparr>"

definition nonUrgentAnalysis :: json where
  "nonUrgentAnalysis =
     JObj [(''canComplete'', JBool True),
           (''urgencyLevel'', JStr ''Non-urgent''),
           (''recommendedAction'', JStr ''Rest at home''),
           (''reasoning'', JStr ''Mild symptoms''),
           (''missingInformation'', JArr [])]"

definition needMoreAnalysis :: json where
  "needMoreAnalysis =
     JObj [(''canComplete'', JBool False),
           (''missingInformation'', JArr [JStr ''symptom duration''])]"

definition freshSession :: session where
  "freshSession =
     \<lparr>id_session = ''session-1'',
      patientId = ''patient-1'',
      patientInfo = elderlyPatient,
      messages = [\<lparr>role = ''system'', content = generateSystemContext elderlyPatient\<rparr>,
                  \<lparr>role = ''assistant'', content = ''Tell me more.''\<rparr>],
      createdAt = 1,
      lastUpdated = 1,
      complete = False,
      triageResult = None\<rparr>"

definition freshStore :: store where
  "freshStore = snd (createSession (scripted needMoreAnalysis) Map.empty elderlyPatient ''patient-1'')"

definition completedStore :: store where
  "completedStore =
     snd (processUserMessage (scripted nonUrgentAnalysis) freshStore ''session-1'' ''I can't breathe'')"

definition nonUrgentResult :: triageResult where
  "nonUrgentResult =
     \<lparr>res_urgencyLevel = Some (JStr ''Non-urgent''),
      res_recommendedAction = Some (JStr ''Rest at home''),
      res_reasoning = Some (JStr ''Mild symptoms'')\<rparr>"

definition completedSession :: session where
  "completedSession =
     (afterTurn freshSession ''I can't breathe'' ''Rest and fluids.'' ''Tell me more.'' 1)
       \<lparr>complete := True, triageResult := Some nonUrgentResult\<rparr>"

definition brokenEmbedder :: embedder where
  "brokenEmbedder = (\<lambda>query. Inl (Error ''embedding service unavailable''))"

definition feverUtil :: embeddingsUtil where
  "feverUtil =
     \<lparr>embeddingDim = 2,
      model = Some brokenEmbedder,
      index = Some \<lparr>kind = IndexFlatL2, dim = 2, vectors = [[1, 0]]\<rparr>,
      documentEmbeddings = Some [[1, 0]],
      documentMetadata = Some [plainDoc ''Fever above 103F requires evaluation'']\<rparr>"

definition emptyUtil :: embeddingsUtil where
  "emptyUtil =
     \<lparr>embeddingDim = 2, model = None, index = None, documentEmbeddings = None,
      documentMetadata = None\<rparr>"

definition defaultOptions :: ragOptions where
  "defaultOptions = \<lparr>maxContextLength = 4000, relevanceThreshold = 0.7\<rparr>"

definition answering :: "string \<Rightarrow> error + string" where
  "answering = (\<lambda>prompt. Inr ''Please see a doctor.'')"











definition cdcDocument :: ragDocument where
  "cdcDocument = \<lparr>metadataSource = Some (Some ''CDC''), pageContent = Some ''Rest and fluids.''\<rparr>"

section \<open>Evaluation of the string primitives\<close>

lemmas js_string_defs =
  toLowerCase_def toLowerChar_def lowerCaseTable_def isWordChar_def or_default_def

lemmas urgency_level_defs = EMERGENCY_def URGENT_def SEMI_URGENT_def NON_URGENT_def

lemma parseInt_70: "parseInt (Some ''70'') = Some 70"
  by (simp add: parseInt_def isWhiteSpace_def parseUnsigned_def parseDigits_def isDigitIn_def
      digitValue_def digitsValue_def Let_def)

section \<open>The disclaimer on every local assessment\<close>

text \<open>
  Claim C10. For every urgency level and every patient data, the warnings of a generated triage
  result are a non-empty list whose first element is the fixed disclaimer
  ``This is an automated assessment and not a medical diagnosis.''; this holds for
  \<open>getWarningsByUrgency\<close> on any level string, one of the four levels or not, and for the
  \<open>warnings\<close> field of what \<open>generateMockTriageResult\<close> returns.
\<close>

theorem warnings_start_with_disclaimer:
  "getWarningsByUrgency level pd \<noteq> []
   \<and> hd (getWarningsByUrgency level pd)
       = ''This is an automated assessment and not a medical diagnosis.''
   \<and> warnings (generateMockTriageResult pd chatHistory ca) \<noteq> []
   \<and> hd (warnings (generateMockTriageResult pd chatHistory ca))
       = ''This is an automated assessment and not a medical diagnosis.''"
  by (simp add: getWarningsByUrgency_def generateMockTriageResult_def DISCLAIMER_def Let_def)

lemma warnings_elderly_semi_urgent:
  "getWarningsByUrgency ''semi-urgent'' elderlyPatient =
     [''This is an automated assessment and not a medical diagnosis.'',
      ''If your symptoms suddenly worsen, seek immediate medical attention.'',
      ''Older adults may have atypical presentations of serious conditions. Consider seeking medical attention even for mild symptoms.'']"
  by (simp add: getWarningsByUrgency_def levelWarnings_def ageWarnings_def elderlyPatient_def
      DISCLAIMER_def urgency_level_defs parseInt_70)

theorem warnings_start_with_disclaimer_witness:
  "length (getWarningsByUrgency ''semi-urgent'' elderlyPatient) = 3
   \<and> hd (getWarningsByUrgency ''semi-urgent'' elderlyPatient)
       = ''This is an automated assessment and not a medical diagnosis.''"
  using warnings_start_with_disclaimer [of "''semi-urgent''" elderlyPatient]
  by (simp add: warnings_elderly_semi_urgent)

section \<open>The emergency floor of the local assessment\<close>

lemma userMessages_member:
  "msg \<in> set chatHistory \<Longrightarrow> role msg = ''user''
   \<Longrightarrow> toLowerCase (content msg) \<in> set (userMessages chatHistory)"
  by (auto simp: userMessages_def)

lemma hasEmergencyWords_intro:
  assumes "msg \<in> set chatHistory" and "role msg = ''user''"
    and "isEmergencyMessage (toLowerCase (content msg))"
  shows "hasEmergencyWords chatHistory"
  unfolding hasEmergencyWords_def list_ex_iff
  using userMessages_member [OF assms(1,2)] assms(3) by blast

lemma mockUrgency_floor:
  assumes "chatHistory \<noteq> []" and "hasEmergencyWords chatHistory"
  shows "mockUrgency chatHistory ca = EMERGENCY \<or> mockUrgency chatHistory ca = URGENT"
  using assms by (auto simp: mockUrgency_def Let_def urgency_level_defs)

section \<open>The retrieval budget\<close>

lemma contentOr_hardTruncate:
  "0 < budget \<Longrightarrow> budget < length (contentOr d [])
   \<Longrightarrow> contentOr (hardTruncate d budget) [] = take budget (contentOr d [])"
  by (auto simp: hardTruncate_def contentOr_def or_default_def split: option.splits)

lemma truncateLoop_refines:
  "totalLength \<le> maxLength \<Longrightarrow>
   truncateLoop docs maxLength totalLength acc
     = acc @ truncateToBudget docs (maxLength - totalLength)"
proof (induction docs arbitrary: totalLength acc)
  case Nil
  then show ?case by simp
next
  case (Cons d ds)
  show ?case
  proof (cases "totalLength + length (contentOr d []) \<le> maxLength")
    case True
    then have "truncateLoop (d # ds) maxLength totalLength acc =
               truncateLoop ds maxLength (totalLength + length (contentOr d [])) (acc @ [d])"
      by (simp add: Let_def)
    also have "\<dots> = (acc @ [d])
                 @ truncateToBudget ds (maxLength - (totalLength + length (contentOr d [])))"
      using True by (rule Cons.IH)
    also have "\<dots> = acc @ truncateToBudget (d # ds) (maxLength - totalLength)"
      using True Cons.prems by simp
    finally show ?thesis .
  next
    case False
    then show ?thesis
      using Cons.prems by (simp add: Let_def hardTruncate_def minimumUseful_def)
  qed
qed

lemma truncateToBudget_within:
  "totalContentLength (truncateToBudget docs budget) \<le> budget"
proof (induction docs arbitrary: budget)
  case Nil
  then show ?case by (simp add: totalContentLength_def)
next
  case (Cons d ds)
  show ?case
  proof (cases "length (contentOr d []) \<le> budget")
    case True
    have "totalContentLength (truncateToBudget ds (budget - length (contentOr d [])))
            \<le> budget - length (contentOr d [])"
      by (rule Cons.IH)
    then show ?thesis using True by (simp add: totalContentLength_def)
  next
    case False
    show ?thesis
    proof (cases "budget > minimumUseful")
      case True
      then have "contentOr (hardTruncate d budget) [] = take budget (contentOr d [])"
        using False by (intro contentOr_hardTruncate) (auto simp: minimumUseful_def)
      then show ?thesis using False True by (simp add: totalContentLength_def)
    next
      case small: False
      then show ?thesis using False by (simp add: totalContentLength_def)
    qed
  qed
qed

text \<open>
  Claim C6. For every list of ranked chunks and every budget \<open>maxLength\<close>, the output of
  \<open>_truncateContext\<close> has a total content length of at most \<open>maxLength\<close>, and it is the list the
  specification describes: the chunks are accumulated greedily in rank order, and the first
  chunk that would overflow is cut to the remaining budget and marked \<open>truncated\<close> when more than
  the minimum usefulness threshold of 100 characters remains, and dropped otherwise.
\<close>

theorem truncateContext_within_budget:
  "totalContentLength (truncateContext docs maxLength) \<le> maxLength
   \<and> truncateContext docs maxLength = truncateToBudget docs maxLength"
proof -
  have same: "truncateContext docs maxLength = truncateToBudget docs maxLength"
    using truncateLoop_refines [of 0 maxLength docs "[]"] by (simp add: truncateContext_def)
  show ?thesis
    unfolding same using truncateToBudget_within by simp
qed

lemma contentOr_plainDoc: "contentOr (plainDoc c) [] = c"
  by (simp add: contentOr_def plainDoc_def or_default_def)

lemma truncateToBudget_example:
  "truncateToBudget budgetDocs 150
   = [plainDoc (replicate 30 CHR ''a''), hardTruncate (plainDoc (replicate 200 CHR ''b'')) 120]"
  by (simp add: budgetDocs_def contentOr_plainDoc minimumUseful_def)

theorem truncateContext_within_budget_witness:
  "truncateContext budgetDocs 150
   = [plainDoc (replicate 30 CHR ''a''), hardTruncate (plainDoc (replicate 200 CHR ''b'')) 120]
   \<and> totalContentLength (truncateContext budgetDocs 150) \<le> 150"
proof -
  have le: "totalContentLength (truncateContext budgetDocs 150) \<le> 150"
    by (rule conjunct1 [OF truncateContext_within_budget])
  have eq: "truncateContext budgetDocs 150 = truncateToBudget budgetDocs 150"
    by (rule conjunct2 [OF truncateContext_within_budget])
  show ?thesis
  proof (intro conjI)
    show "truncateContext budgetDocs 150
          = [plainDoc (replicate 30 CHR ''a''), hardTruncate (plainDoc (replicate 200 CHR ''b'')) 120]"
      unfolding eq by (rule truncateToBudget_example)
    show "totalContentLength (truncateContext budgetDocs 150) \<le> 150"
      by (rule le)
  qed
qed

section \<open>The urgency level read from a triage response\<close>

lemma regexTest_emergency_example:
  "regexTest ''EMERGENCY'' ''Emergency? No, urgent.''"
  by (simp add: regexTest_def js_string_defs)

lemma regexTest_urgent_example:
  "regexTest ''URGENT'' ''Emergency? No, urgent.''"
  by (simp add: regexTest_def js_string_defs)

lemma regexTest_semi_example:
  "\<not> regexTest ''SEMI-URGENT'' ''Emergency? No, urgent.''"
  by (simp add: regexTest_def js_string_defs)

lemma regexTest_non_example:
  "\<not> regexTest ''NON-URGENT'' ''Emergency? No, urgent.''"
  by (simp add: regexTest_def js_string_defs)

text \<open>The patterns match whole words only: \<open>urgent\<close> inside a longer word is no match.\<close>

lemma regexTest_whole_word:
  "\<not> regexTest ''URGENT'' ''Insurgents''" "regexTest ''URGENT'' ''non-urgent''"
  by (simp_all add: regexTest_def js_string_defs)

text \<open>
  The level as a function of the four tests: the loop overwrites the level at every match, so
  the last pattern that matches, in the order EMERGENCY, URGENT, SEMI-URGENT, NON-URGENT, gives
  the level.
\<close>

lemma extractUrgencyLevel_last_match_wins:
  "extractUrgencyLevel reply =
     (if regexTest ''NON-URGENT'' reply then ''NON-URGENT''
      else if regexTest ''SEMI-URGENT'' reply then ''SEMI-URGENT''
      else if regexTest ''URGENT'' reply then ''URGENT''
      else if regexTest ''EMERGENCY'' reply then ''EMERGENCY''
      else ''UNKNOWN'')"
  by (simp add: extractUrgencyLevel_def urgencyPatterns_def)

lemma lower_emergency_example:
  "toLowerCase ''Emergency? No, urgent.'' = ''emergency? no, urgent.''"
  by (simp add: js_string_defs)

lemma includes_emergency_example:
  "str_includes ''emergency? no, urgent.'' ''emergency''"
  by simp

text \<open>
  Claim C7 is not what \<open>processTriage\<close> does. In the response \<open>Emergency? No, urgent.\<close> the
  EMERGENCY pattern matches, as a whole word and without regard to case, and so does URGENT. The
  loop over the patterns overwrites the level at every match, so the level extracted is URGENT
  and not EMERGENCY. The Python service of the same sources reads the same text as \<open>Emergent\<close>:
  it tests for the most urgent words first.
\<close>

theorem emergency_keyword_is_overwritten:
  "regexTest ''EMERGENCY'' ''Emergency? No, urgent.''
   \<and> extractUrgencyLevel ''Emergency? No, urgent.'' = ''URGENT''
   \<and> perform_triage_urgency_level ''Emergency? No, urgent.'' = ''Emergent''
   \<and> evaluate_case_urgency_detected ''Emergency? No, urgent.'' = ''Emergent''"
proof -
  have "extractUrgencyLevel ''Emergency? No, urgent.'' = ''URGENT''"
    by (simp add: extractUrgencyLevel_def urgencyPatterns_def regexTest_urgent_example
        regexTest_semi_example regexTest_non_example)
  moreover have "perform_triage_urgency_level ''Emergency? No, urgent.'' = ''Emergent''"
    unfolding perform_triage_urgency_level_def lower_emergency_example
    using includes_emergency_example by simp
  moreover have "evaluate_case_urgency_detected ''Emergency? No, urgent.'' = ''Emergent''"
    unfolding evaluate_case_urgency_detected_def lower_emergency_example
    using includes_emergency_example by simp
  ultimately show ?thesis
    using regexTest_emergency_example by simp
qed

section \<open>The session store\<close>

lemma processUserMessage_unknown:
  "st sessionId = None \<Longrightarrow>
   processUserMessage sv st sessionId msg = (Inl (Error ''Session not found''), st)"
  by (simp add: processUserMessage_def)

lemma analyze_result_present:
  "analyzeForTriageCompletion sv msgs = Inr a \<Longrightarrow> canComplete a = (result a \<noteq> None)"
  by (auto simp: analyzeForTriageCompletion_def split: sum.splits if_splits)

lemma appendMessage_simps:
  "messages (appendMessage s r c) = messages s @ [\<lparr>role = r, content = c\<rparr>]"
  "complete (appendMessage s r c) = complete s"
  "triageResult (appendMessage s r c) = triageResult s"
  by (simp_all add: appendMessage_def)

lemma setSystemContent_simps:
  "messages (setSystemContent s c) = (messages s)[0 := (hd (messages s))\<lparr>content := c\<rparr>]"
  "complete (setSystemContent s c) = complete s"
  "triageResult (setSystemContent s c) = triageResult s"
  by (simp_all add: setSystemContent_def)

text \<open>What a call on a known session leaves in the store.\<close>

lemma processUserMessage_frame:
  "x \<noteq> sessionId \<Longrightarrow> snd (processUserMessage sv st sessionId msg) x = st x"
  by (auto simp: processUserMessage_def Let_def split: option.splits sum.splits)

lemma processUserMessage_known:
  assumes "st sessionId = Some s0"
  shows "\<exists>s'. snd (processUserMessage sv st sessionId msg) sessionId = Some s'
           \<and> length (messages s0) < length (messages s')
           \<and> role (messages s' ! length (messages s0)) = ''user''
           \<and> (messages s0 \<noteq> [] \<longrightarrow> content (messages s' ! length (messages s0)) = msg)
           \<and> ((complete s' = complete s0 \<and> triageResult s' = triageResult s0)
               \<or> (complete s' \<and> triageResult s' \<noteq> None))"
  using assms
  by (cases "messages s0")
    (auto simp: processUserMessage_def Let_def appendMessage_simps setSystemContent_simps
      nth_append dest: analyze_result_present split: sum.splits)

lemma createSession_store:
  "snd (createSession sv st info userId) = st
   \<or> (\<exists>s'. snd (createSession sv st info userId) = st(uuidv4 sv \<mapsto> s')
         \<and> messages s' \<noteq> [] \<and> \<not> complete s' \<and> triageResult s' = None)"
  by (auto simp: createSession_def Let_def split: sum.splits)

lemma reachable_invariant:
  "reachable st \<Longrightarrow> st sessionId = Some s
   \<Longrightarrow> messages s \<noteq> [] \<and> complete s = (triageResult s \<noteq> None)"
proof (induction arbitrary: sessionId s rule: reachable.induct)
  case initial
  then show ?case by simp
next
  case (created st sv info userId r st')
  have st': "st' = snd (createSession sv st info userId)"
    using created.hyps(2) by simp
  from createSession_store [of sv st info userId] show ?case
  proof
    assume "snd (createSession sv st info userId) = st"
    then show ?thesis using created.IH created.prems st' by simp
  next
    assume "\<exists>s'. snd (createSession sv st info userId) = st(uuidv4 sv \<mapsto> s')
         \<and> messages s' \<noteq> [] \<and> \<not> complete s' \<and> triageResult s' = None"
    then obtain s' where new: "st' = st(uuidv4 sv \<mapsto> s')"
      and fresh: "messages s' \<noteq> []" "\<not> complete s'" "triageResult s' = None"
      using st' by auto
    show ?thesis
    proof (cases "sessionId = uuidv4 sv")
      case True
      then have "s = s'" using created.prems new by simp
      then show ?thesis using fresh by simp
    next
      case False
      then have "st sessionId = Some s" using created.prems new by simp
      then show ?thesis by (rule created.IH)
    qed
  qed
next
  case (processed st sv sid msg r st')
  have st': "st' = snd (processUserMessage sv st sid msg)"
    using processed.hyps(2) by simp
  show ?case
  proof (cases "st sid")
    case None
    then have "st' = st" using st' by (simp add: processUserMessage_unknown)
    then show ?thesis using processed.IH processed.prems by simp
  next
    case (Some s0)
    have inv0: "messages s0 \<noteq> [] \<and> complete s0 = (triageResult s0 \<noteq> None)"
      using Some by (rule processed.IH)
    from processUserMessage_known [where st = st and sessionId = sid and sv = sv and msg = msg, OF Some]
    obtain s' where new: "st' sid = Some s'"
      and longer: "length (messages s0) < length (messages s')"
      and status: "(complete s' = complete s0 \<and> triageResult s' = triageResult s0)
               \<or> (complete s' \<and> triageResult s' \<noteq> None)"
      unfolding st' by blast
    show ?thesis
    proof (cases "sessionId = sid")
      case True
      then have "s = s'" using processed.prems new by simp
      then show ?thesis using longer status inv0 by auto
    next
      case False
      then have "st sessionId = Some s"
        using processed.prems st' by (simp add: processUserMessage_frame)
      then show ?thesis by (rule processed.IH)
    qed
  qed
qed

text \<open>
  Claim C8. In every store the service can reach, a triage result is present exactly on the
  sessions that are complete: \<open>getTriageResult\<close> returns a result (not \<open>null\<close>) for a session
  id if and only if the session exists and is complete, and \<open>null\<close> for an unknown id and for a
  session that is still active.
\<close>

theorem result_present_iff_complete:
  assumes "reachable st"
  shows "(getTriageResult st sessionId \<noteq> None) = (\<exists>s. st sessionId = Some s \<and> complete s)"
proof (cases "st sessionId")
  case None
  then show ?thesis by (simp add: getTriageResult_def)
next
  case (Some s)
  then have "complete s = (triageResult s \<noteq> None)"
    using reachable_invariant [OF assms] by simp
  then show ?thesis using Some by (simp add: getTriageResult_def)
qed


section \<open>Scripted sessions\<close>

lemma createSession_scripted:
  "createSession (scripted a) Map.empty elderlyPatient ''patient-1''
   = (Inr (''session-1'', ''Tell me more.''), [''session-1'' \<mapsto> freshSession])"
  by (simp add: createSession_def scripted_def freshSession_def Let_def)

lemma freshStore_eq: "freshStore = [''session-1'' \<mapsto> freshSession]"
  by (simp add: freshStore_def createSession_scripted)

lemma reachable_freshStore: "reachable freshStore"
  unfolding freshStore_def
  by (rule reachable.created [OF reachable.initial]) (rule surjective_pairing)

lemma reachable_completedStore: "reachable completedStore"
  unfolding completedStore_def
  by (rule reachable.processed [OF reachable_freshStore]) (rule surjective_pairing)

lemma analyze_nonUrgent:
  "analyzeForTriageCompletion (scripted nonUrgentAnalysis) msgs
   = Inr \<lparr>canComplete = True, result = Some nonUrgentResult, missingInformation = None\<rparr>"
  by (simp add: analyzeForTriageCompletion_def scripted_def nonUrgentAnalysis_def getProp_def
      propOf_def isTruthy_def nonUrgentResult_def)

lemma analyze_needMore:
  "analyzeForTriageCompletion (scripted needMoreAnalysis) msgs
   = Inr \<lparr>canComplete = False, result = None,
          missingInformation = Some (JArr [JStr ''symptom duration''])\<rparr>"
  by (simp add: analyzeForTriageCompletion_def scripted_def needMoreAnalysis_def getProp_def
      propOf_def isTruthy_def)

lemma scripted_simps:
  "retrieveRelevantMedicalInfo (scripted a) q ms = Inr ''Rest and fluids.''"
  "generateResponse (scripted a) c ms i = Inr ''Tell me more.''"
  "now (scripted a) = 1"
  by (simp_all add: scripted_def)

lemma turn_needMore:
  "st sessionId = Some s \<Longrightarrow>
   processUserMessage (scripted needMoreAnalysis) st sessionId msg
   = (Inr \<lparr>message = ''Tell me more.'', triageComplete = False, urgency = None,
            recommendedAction = None\<rparr>,
      st(sessionId \<mapsto> afterTurn s msg ''Rest and fluids.'' ''Tell me more.'' 1))"
  by (simp add: processUserMessage_def Let_def scripted_simps analyze_needMore afterTurn_def)

lemma turn_nonUrgent:
  "st sessionId = Some s \<Longrightarrow>
   processUserMessage (scripted nonUrgentAnalysis) st sessionId msg
   = (Inr \<lparr>message = ''Tell me more.'', triageComplete = True,
            urgency = Some (JStr ''Non-urgent''),
            recommendedAction = Some (JStr ''Rest at home'')\<rparr>,
      st(sessionId \<mapsto> (afterTurn s msg ''Rest and fluids.'' ''Tell me more.'' 1)
                          \<lparr>complete := True, triageResult := Some nonUrgentResult\<rparr>))"
  by (simp add: processUserMessage_def Let_def scripted_simps analyze_nonUrgent afterTurn_def
      nonUrgentResult_def)

lemma afterTurn_simps:
  "complete (afterTurn s msg info response time) = complete s"
  "triageResult (afterTurn s msg info response time) = triageResult s"
  "length (messages (afterTurn s msg info response time)) = length (messages s) + 2"
  by (simp_all add: afterTurn_def appendMessage_simps setSystemContent_simps)

lemma roles_afterTurn:
  "messages s \<noteq> [] \<Longrightarrow>
   map role (messages (afterTurn s msg info response time))
   = map role (messages s) @ [''user'', ''assistant'']"
  by (cases "messages s")
    (simp_all add: afterTurn_def appendMessage_simps setSystemContent_simps)

lemma userTurns_afterTurn:
  "messages s \<noteq> [] \<Longrightarrow> userTurns (afterTurn s msg info response time) = Suc (userTurns s)"
  by (simp add: userTurns_def roles_afterTurn)

lemma submitAll_needMore:
  "st sessionId = Some s \<Longrightarrow> messages s \<noteq> [] \<Longrightarrow>
   \<exists>s'. submitAll (scripted needMoreAnalysis) st sessionId msgs sessionId = Some s'
         \<and> messages s' \<noteq> []
         \<and> complete s' = complete s
         \<and> triageResult s' = triageResult s
         \<and> userTurns s' = userTurns s + length msgs"
proof (induction msgs arbitrary: st s)
  case Nil
  then show ?case by simp
next
  case (Cons m ms)
  let ?s1 = "afterTurn s m ''Rest and fluids.'' ''Tell me more.'' 1"
  let ?st1 = "st(sessionId \<mapsto> ?s1)"
  have step: "snd (processUserMessage (scripted needMoreAnalysis) st sessionId m) = ?st1"
    using Cons.prems(1) by (simp add: turn_needMore)
  have ne: "messages ?s1 \<noteq> []"
    using afterTurn_simps(3) [of s m "''Rest and fluids.''" "''Tell me more.''" 1]
    by (cases "messages ?s1") simp_all
  have "?st1 sessionId = Some ?s1" by simp
  from Cons.IH [of ?st1 ?s1, OF this ne]
  obtain s' where
    "submitAll (scripted needMoreAnalysis) ?st1 sessionId ms sessionId = Some s'"
    "messages s' \<noteq> []" "complete s' = complete ?s1" "triageResult s' = triageResult ?s1"
    "userTurns s' = userTurns ?s1 + length ms"
    by blast
  then show ?case
    using step Cons.prems(2) by (simp add: afterTurn_simps userTurns_afterTurn)
qed

lemma maxConversationTurns_default: "maxConversationTurns None = Some 10"
  by (simp add: maxConversationTurns_def or_default_def parseInt_def isWhiteSpace_def
      parseUnsigned_def parseDigits_def isDigitIn_def digitValue_def digitsValue_def Let_def)

lemma freshSession_simps:
  "messages freshSession \<noteq> []" "\<not> complete freshSession" "triageResult freshSession = None"
  "userTurns freshSession = 0" "length (messages freshSession) = 2"
  by (simp_all add: freshSession_def userTurns_def)

text \<open>
  Claim C3 is not what the code does. With the configured maximum at its default of 10 and a
  model that never signals completion, a session that has already taken 10 user messages answers
  the eleventh with \<open>triageComplete = false\<close> and no urgency: \<open>processUserMessage\<close> never reads
  \<open>maxConversationTurns\<close> and never forces the assessment the configuration announces.
\<close>

theorem turn_ceiling_not_enforced:
  "maxConversationTurns None = Some 10
   \<and> (case submitAll (scripted needMoreAnalysis) freshStore ''session-1''
             (replicate 10 ''It still hurts'') ''session-1'' of
         None \<Rightarrow> False
       | Some s \<Rightarrow> userTurns s = 10 \<and> \<not> complete s)
   \<and> fst (processUserMessage (scripted needMoreAnalysis)
             (submitAll (scripted needMoreAnalysis) freshStore ''session-1''
                (replicate 10 ''It still hurts''))
             ''session-1'' ''It still hurts'')
       = Inr \<lparr>message = ''Tell me more.'', triageComplete = False, urgency = None,
              recommendedAction = None\<rparr>"
proof -
  let ?st10 = "submitAll (scripted needMoreAnalysis) freshStore ''session-1''
                 (replicate 10 ''It still hurts'')"
  have "freshStore ''session-1'' = Some freshSession"
    by (simp add: freshStore_eq)
  from submitAll_needMore [of freshStore "''session-1''" freshSession
      "replicate 10 ''It still hurts''", OF this freshSession_simps(1)]
  obtain s where s: "?st10 ''session-1'' = Some s" "complete s = complete freshSession"
    "userTurns s = userTurns freshSession + 10"
    by auto
  have "fst (processUserMessage (scripted needMoreAnalysis) ?st10 ''session-1'' ''It still hurts'')
        = Inr \<lparr>message = ''Tell me more.'', triageComplete = False, urgency = None,
               recommendedAction = None\<rparr>"
    using s(1) by (simp add: turn_needMore)
  then show ?thesis
    using s maxConversationTurns_default by (simp add: freshSession_simps)
qed


lemma completedStore_eq: "completedStore = [''session-1'' \<mapsto> completedSession]"
  by (simp add: completedStore_def freshStore_eq turn_nonUrgent completedSession_def)

lemma completedSession_simps:
  "complete completedSession" "triageResult completedSession = Some nonUrgentResult"
  "length (messages completedSession) = 4"
  by (simp_all add: completedSession_def afterTurn_simps freshSession_simps)

theorem result_present_iff_complete_witness:
  "reachable completedStore
   \<and> getTriageResult completedStore ''session-1'' \<noteq> None
   \<and> getTriageResult completedStore ''session-2'' = None
   \<and> reachable freshStore
   \<and> getTriageResult freshStore ''session-1'' = None"
proof -
  have "getTriageResult completedStore ''session-1'' \<noteq> None"
    using result_present_iff_complete [OF reachable_completedStore, of "''session-1''"]
    by (simp add: completedStore_eq completedSession_simps)
  moreover have "getTriageResult completedStore ''session-2'' = None"
    using result_present_iff_complete [OF reachable_completedStore, of "''session-2''"]
    by (simp add: completedStore_eq)
  moreover have "getTriageResult freshStore ''session-1'' = None"
    using result_present_iff_complete [OF reachable_freshStore, of "''session-1''"]
    by (simp add: freshStore_eq freshSession_simps)
  ultimately show ?thesis
    using reachable_completedStore reachable_freshStore by simp
qed

lemma received_simps:
  "messages (received s msg) = messages s @ [\<lparr>role = ''user'', content = msg\<rparr>]"
  "complete (received s msg) = complete s"
  by (simp_all add: received_def appendMessage_simps)







section \<open>The emergency floor\<close>

lemma lower_breathless: "toLowerCase ''I CAN'T BREATHE'' = ''i can't breathe''"
  by (simp add: js_string_defs)

lemma lower_breathless2: "toLowerCase ''I can't breathe'' = ''i can't breathe''"
  by (simp add: js_string_defs)

lemma includes_breathless: "str_includes ''i can't breathe'' ''can't breathe''"
  by simp

text \<open>
  The floor of the local assessment of the front end. When a message of the chat history whose
  role is \<open>user\<close> contains, without regard to case, one of the indicator phrases \<open>severe\<close>,
  \<open>excruciating\<close>, \<open>worst\<close>, \<open>can't breathe\<close> or \<open>10 out of 10\<close>, the urgency level of
  \<open>generateMockTriageResult\<close> is \<open>emergency\<close> or \<open>urgent\<close>, never \<open>non-urgent\<close> or
  \<open>semi-urgent\<close>, whatever the complaint analysis suggests.
\<close>

lemma mock_emergency_floor:
  assumes "msg \<in> set chatHistory" and "role msg = ''user''"
    and "isEmergencyMessage (toLowerCase (content msg))"
  shows "(urgencyLevel (generateMockTriageResult pd chatHistory ca) = EMERGENCY
          \<or> urgencyLevel (generateMockTriageResult pd chatHistory ca) = URGENT)
         \<and> urgencyLevel (generateMockTriageResult pd chatHistory ca) \<noteq> NON_URGENT
         \<and> urgencyLevel (generateMockTriageResult pd chatHistory ca) \<noteq> SEMI_URGENT"
proof -
  have "chatHistory \<noteq> []" using assms(1) by auto
  moreover have "hasEmergencyWords chatHistory"
    using assms by (rule hasEmergencyWords_intro)
  ultimately have "mockUrgency chatHistory ca = EMERGENCY \<or> mockUrgency chatHistory ca = URGENT"
    by (rule mockUrgency_floor)
  then show ?thesis
    by (auto simp: generateMockTriageResult_def Let_def urgency_level_defs)
qed

lemma mock_breathless_upper:
  "urgencyLevel (generateMockTriageResult elderlyPatient breathlessChat rashAnalysis) = EMERGENCY
   \<or> urgencyLevel (generateMockTriageResult elderlyPatient breathlessChat rashAnalysis) = URGENT"
proof -
  have c: "content (breathlessChat ! 1) = ''I CAN'T BREATHE''"
    and r: "role (breathlessChat ! 1) = ''user''"
    and m: "breathlessChat ! 1 \<in> set breathlessChat"
    by (simp_all add: breathlessChat_def)
  have "str_includes (toLowerCase (content (breathlessChat ! 1))) ''can't breathe''"
    unfolding c lower_breathless by (rule includes_breathless)
  then have "isEmergencyMessage (toLowerCase (content (breathlessChat ! 1)))"
    by (simp add: isEmergencyMessage_def)
  from mock_emergency_floor [OF m r this, of elderlyPatient rashAnalysis]
  show ?thesis by simp
qed

text \<open>The local assessment of a user who cannot breathe, when the analysis says \<open>non-urgent\<close>.\<close>

lemma mock_breathless:
  "urgencyLevel (generateMockTriageResult elderlyPatient breathlessTurn mildAnalysis) = URGENT"
proof -
  have "hasEmergencyWords breathlessTurn"
    by (simp add: hasEmergencyWords_def userMessages_def breathlessTurn_def lower_breathless2
        isEmergencyMessage_def)
  then show ?thesis
    by (simp add: generateMockTriageResult_def mockUrgency_def Let_def mildAnalysis_def
        or_default_def redFlagsMentioned_def breathlessTurn_def urgency_level_defs)
qed

text \<open>
  Claim C1 is not what the back-end session controller does. A session is completed on the user
  message \<open>I can't breathe\<close>, which contains the indicator phrase \<open>can't breathe\<close>, by a model
  whose analysis says \<open>Non-urgent\<close>: the response and the stored result carry \<open>Non-urgent\<close>.
  \<open>analyzeForTriageCompletion\<close> copies the urgency level of the analysis and nothing in the back
  end reads the conversation text. The local assessment of the front end, for the same user
  message and an analysis that says \<open>non-urgent\<close>, gives \<open>urgent\<close>.
\<close>

theorem backend_has_no_emergency_floor:
  "str_includes (toLowerCase ''I can't breathe'') ''can't breathe''
   \<and> fst (processUserMessage (scripted nonUrgentAnalysis) freshStore ''session-1''
            ''I can't breathe'')
       = Inr \<lparr>message = ''Tell me more.'', triageComplete = True,
               urgency = Some (JStr ''Non-urgent''),
               recommendedAction = Some (JStr ''Rest at home'')\<rparr>
   \<and> getTriageResult completedStore ''session-1''
       = Some \<lparr>res_urgencyLevel = Some (JStr ''Non-urgent''),
                res_recommendedAction = Some (JStr ''Rest at home''),
                res_reasoning = Some (JStr ''Mild symptoms'')\<rparr>
   \<and> urgencyLevel (generateMockTriageResult elderlyPatient breathlessTurn mildAnalysis) = URGENT"
proof -
  have "freshStore ''session-1'' = Some freshSession"
    by (simp add: freshStore_eq)
  then have "fst (processUserMessage (scripted nonUrgentAnalysis) freshStore ''session-1''
            ''I can't breathe'')
       = Inr \<lparr>message = ''Tell me more.'', triageComplete = True,
               urgency = Some (JStr ''Non-urgent''),
               recommendedAction = Some (JStr ''Rest at home'')\<rparr>"
    by (simp add: turn_nonUrgent)
  moreover have "getTriageResult completedStore ''session-1'' = Some nonUrgentResult"
    by (simp add: getTriageResult_def completedStore_eq completedSession_simps)
  ultimately show ?thesis
    using includes_breathless mock_breathless by (simp add: lower_breathless2 nonUrgentResult_def)
qed

section \<open>The structured analysis of a reply\<close>

lemma JSON_parse_null: "JSON_parse ''null'' = Some JNull"
  by (simp add: JSON_parse_def eval_nat_numeral skipWs_def isJsonWs_def)

lemma matchBraces_null: "matchBraces ''null'' = None"
  by (simp add: matchBraces_def)

lemma isSoftFailure_fallbacks:
  "isSoftFailure createFallbackAnalysis" "isSoftFailure formatErrorAnalysis"
  "isSoftFailure systemErrorAnalysis"
  by (simp_all add: isSoftFailure_def nonEmptyArray_def createFallbackAnalysis_def
      formatErrorAnalysis_def systemErrorAnalysis_def)

lemma adapter_returns:
  "Adapter_initialize modelType = Inr u \<Longrightarrow>
   \<exists>v. Adapter_generateStructuredAnalysis modelType reply = Inr v"
  by (auto simp: Adapter_generateStructuredAnalysis_def split: sum.splits option.splits)

lemma adapter_parse_failure:
  assumes "Adapter_initialize modelType = Inr u"
    and "JSON_parse (case matchBraces resultText of None \<Rightarrow> resultText | Some m \<Rightarrow> m) = None"
  shows "Adapter_generateStructuredAnalysis modelType (Inr resultText) = Inr formatErrorAnalysis"
  using assms
  by (auto simp: Adapter_generateStructuredAnalysis_def split: sum.splits option.splits)

lemma adapter_call_failure:
  assumes "Adapter_initialize modelType = Inr u"
  shows "Adapter_generateStructuredAnalysis modelType (Inl e) = Inr systemErrorAnalysis"
  using assms by (simp add: Adapter_generateStructuredAnalysis_def)

text \<open>
  \<open>generateAnalysis\<close> of \<open>llmService\<close> answers every error with its default object, and hands
  on whatever value was parsed.
\<close>

lemma llmService_catches:
  "Llm_generateAnalysis ''openai'' modelType (Inl e) = Some systemErrorAnalysis"
  "JSON_parse analysisText = None \<Longrightarrow>
   Llm_generateAnalysis ''openai'' modelType (Inr analysisText) = Some systemErrorAnalysis"
  "Adapter_initialize modelType = Inl e \<Longrightarrow>
   Llm_generateAnalysis ''langchain'' modelType reply = Some systemErrorAnalysis"
  by (simp_all add: Llm_generateAnalysis_def Adapter_generateStructuredAnalysis_def)

lemma llmService_passes_null:
  "Llm_generateAnalysis ''langchain'' ''llama'' (Inr ''null'') = Some JNull"
  "Llm_generateAnalysis ''openai'' modelType (Inr ''null'') = Some JNull"
  by (simp_all add: Llm_generateAnalysis_def Adapter_generateStructuredAnalysis_def
      Adapter_initialize_def Adapter_modelType_def or_default_def matchBraces_null JSON_parse_null)

lemma llm_returns:
  "LLM_initialize provider = Inr u \<Longrightarrow>
   \<exists>v. LLM_generateStructuredAnalysis provider maxRetries reply = Inr v"
  by (auto simp: LLM_generateStructuredAnalysis_def split: sum.splits option.splits)

lemma matchBraces_starts:
  assumes "matchBraces s = Some m"
  shows "\<exists>rest. m = CHR ''{'' # rest"
proof (cases "dropWhile (\<lambda>c. c \<noteq> CHR ''{'') s")
  case Nil
  show ?thesis
    using assms unfolding matchBraces_def Nil by simp
next
  case (Cons b rest)
  have "b = CHR ''{''"
    using hd_dropWhile [of "\<lambda>c. c \<noteq> CHR ''{''" s] Cons by auto
  then show ?thesis
    using assms unfolding matchBraces_def Cons by (auto split: list.splits)
qed

lemma parseValue_brace:
  "parseValue (Suc n) (CHR ''{'' # rest) = Some (v, r) \<Longrightarrow> \<exists>members. v = JObj members"
  by (auto simp: skipWs_def isJsonWs_def split: list.splits if_splits)

lemma parse_brace_is_object:
  assumes "JSON_parse (CHR ''{'' # rest) = Some v"
  shows "\<exists>members. v = JObj members"
proof -
  have fuel: "2 * length (CHR ''{'' # rest) + 2 = Suc (2 * length rest + 3)"
    by simp
  obtain r where "parseValue (Suc (2 * length rest + 3)) (CHR ''{'' # rest) = Some (v, r)"
    using assms unfolding JSON_parse_def fuel by (auto split: option.splits if_splits)
  then show ?thesis by (rule parseValue_brace)
qed

lemma llm_local_object_or_fallback:
  assumes "LLM_generateStructuredAnalysis ''langchain-local'' maxRetries reply = Inr v"
  shows "v = createFallbackAnalysis \<or> (\<exists>members. v = JObj members)"
proof (cases "LLM_generateResponse ''langchain-local'' maxRetries reply")
  case (Inl e)
  then show ?thesis
    using assms by (simp add: LLM_generateStructuredAnalysis_def LLM_initialize_def)
next
  case (Inr analysisResult)
  show ?thesis
  proof (cases "matchBraces analysisResult")
    case None
    then show ?thesis
      using assms Inr by (simp add: LLM_generateStructuredAnalysis_def LLM_initialize_def)
  next
    case (Some jsonMatch)
    then obtain rest where m: "jsonMatch = CHR ''{'' # rest"
      using matchBraces_starts by blast
    show ?thesis
    proof (cases "JSON_parse jsonMatch")
      case None
      then show ?thesis
        using assms Inr Some
        by (simp add: LLM_generateStructuredAnalysis_def LLM_initialize_def)
    next
      case parsed: (Some w)
      then have "v = w"
        using assms Inr Some
        by (simp add: LLM_generateStructuredAnalysis_def LLM_initialize_def)
      then show ?thesis
        using parse_brace_is_object [of rest w] parsed m by simp
    qed
  qed
qed

lemma analyze_soft_failure:
  assumes "generateAnalysis sv msgs analysisPrompt = Inr a" and "isSoftFailure a"
  shows "analyzeForTriageCompletion sv msgs
           = Inr \<lparr>canComplete = False, result = None,
                  missingInformation = propOf a ''missingInformation''\<rparr>
         \<and> nonEmptyArray (propOf a ''missingInformation'')"
proof (cases a)
  case (JObj members)
  then show ?thesis
    using assms
    by (simp add: analyzeForTriageCompletion_def isSoftFailure_def getProp_def propOf_def
        isTruthy_def)
qed (use assms in \<open>simp_all add: isSoftFailure_def\<close>)

text \<open>
  Claim C4 is not what the code does for every reply. When \<open>JSON.parse\<close> throws, both
  procedures return their fallback object, and neither raises once initialised (the lemmas
  above). But a reply that parses to a JSON value other than an object is returned as the
  analysis: for the reply \<open>null\<close> no JSON object can be extracted, and yet the adapter and the
  interface return \<open>null\<close>, which is no soft-failure object; a session controller that is
  handed this analysis throws a \<open>TypeError\<close> to its caller when it reads \<open>canComplete\<close>.
\<close>

theorem null_reply_is_returned_as_analysis:
  "Adapter_generateStructuredAnalysis ''llama'' (Inr ''null'') = Inr JNull
   \<and> LLM_generateStructuredAnalysis ''openai'' 3 (\<lambda>attempt. Inr ''null'') = Inr JNull
   \<and> \<not> isSoftFailure JNull
   \<and> fst (processUserMessage (scripted JNull) freshStore ''session-1'' ''It hurts'')
       = Inl (TypeError ''Cannot read properties of null (reading 'canComplete')'')"
proof -
  have a: "Adapter_generateStructuredAnalysis ''llama'' (Inr ''null'') = Inr JNull"
    by (simp add: Adapter_generateStructuredAnalysis_def Adapter_initialize_def
        Adapter_modelType_def or_default_def matchBraces_null JSON_parse_null)
  have b: "LLM_generateStructuredAnalysis ''openai'' 3 (\<lambda>attempt. Inr ''null'') = Inr JNull"
    by (simp add: LLM_generateStructuredAnalysis_def LLM_initialize_def JSON_parse_null)
  have c: "\<not> isSoftFailure JNull"
    by (simp add: isSoftFailure_def)
  have "analyzeForTriageCompletion (scripted JNull) msgs
        = Inl (TypeError ''Cannot read properties of null (reading 'canComplete')'')" for msgs
    by (simp add: analyzeForTriageCompletion_def scripted_def getProp_def)
  then have d: "fst (processUserMessage (scripted JNull) freshStore ''session-1'' ''It hurts'')
       = Inl (TypeError ''Cannot read properties of null (reading 'canComplete')'')"
    by (simp add: processUserMessage_def freshStore_eq Let_def scripted_simps)
  show ?thesis using a b c d by simp
qed
section \<open>Failures of the retrieval\<close>



text \<open>
  The initialisation is awaited before the \<open>try\<close> block: when the store cannot be opened on
  first use, the error is thrown to the caller.
\<close>

lemma ragService_initialisation_fails:
  "fst (ensureInitialized cfg lib isInitialized) = Inl e
   \<Longrightarrow> ragService cfg lib isInitialized query history = Inl e"
  by (simp add: ragService_def Rag_retrieveRelevantMedicalInfo_def)

text \<open>What the service returns when nothing fails: the documents, formatted for the prompt.\<close>

lemma ragService_formats:
  assumes "fst (ensureInitialized cfg lib isInitialized) = Inr ()"
    and "embedStep cfg lib (enhancedQuery query history) = Inr v"
    and "vectorSearch cfg lib (enhancedQuery query history) v = Inr (Some docs)"
    and "formatDocuments docs = Inr parts"
  shows "ragService cfg lib isInitialized query history = Inr (joinWith (nl @ nl) parts)"
  using assms
  by (simp add: ragService_def Rag_retrieveRelevantMedicalInfo_def tryRetrieve_def
      formatResults_def)

lemma extractMedicalTerms_example:
  "extractMedicalTerms ''I have a fever'' [] = [''fever'']"
  by (simp add: extractMedicalTerms_def commonSymptoms_def regexTest_def js_string_defs)

lemma enhancedQuery_example:
  "enhancedQuery ''I have a fever'' [] = ''I have a fever fever''"
  by (simp add: enhancedQuery_def extractMedicalTerms_example)

lemma formatResults_example:
  "formatResults (Some [cdcDocument, cdcDocument])
   = Inr (''Source: CDC'' @ nl @ ''Rest and fluids.'' @ nl @ nl
          @ ''Source: CDC'' @ nl @ ''Rest and fluids.'')"
  "formatResults (Some [cdcDocument\<lparr>metadataSource := None\<rparr>])
   = Inl (TypeError ''Cannot read properties of undefined (reading 'source')'')"
  by (simp_all add: formatResults_def formatDocument_def cdcDocument_def interpolate_def)








text \<open>
  The stand-alone question answering of \<open>MedicalRAGSystem\<close>, which no session calls, does not
  catch: \<open>search\<close> throws the error of the model or of the index, and \<open>processQuery\<close> logs it and
  throws it again.
\<close>

lemma search_failures:
  assumes "index u = Some idx" and "documentMetadata u = Some md"
  shows "theModel pipeline u = Inl e \<Longrightarrow> search pipeline u query k = Inl e"
    and "theModel pipeline u = Inr m \<Longrightarrow> m query = Inl e \<Longrightarrow> search pipeline u query k = Inl e"
    and "theModel pipeline u = Inr m \<Longrightarrow> m query = Inr v \<Longrightarrow>
         index_search idx
           (Float32Array (if kind idx = IndexFlatIP then normalizeEmbedding v else v)) k = Inl e
         \<Longrightarrow> search pipeline u query k = Inl e"
  using assms by (simp_all add: search_def Let_def)

lemma processQuery_rethrows:
  "search pipeline u query (case filterFn of None \<Rightarrow> k | Some f \<Rightarrow> k * 2) = Inl e
   \<Longrightarrow> processQuery pipeline generateText u opts query k filterFn includeMetadata = Inl e"
  by (simp add: processQuery_def)

lemma feverUtil_simps:
  "index feverUtil = Some \<lparr>kind = IndexFlatL2, dim = 2, vectors = [[1, 0]]\<rparr>"
  "documentMetadata feverUtil = Some [plainDoc ''Fever above 103F requires evaluation'']"
  "theModel pipeline feverUtil = Inr brokenEmbedder"
  "brokenEmbedder query = Inl (Error ''embedding service unavailable'')"
  by (simp_all add: feverUtil_def theModel_def brokenEmbedder_def)

lemma processQuery_rethrows_example:
  "processQuery (Inr brokenEmbedder) answering emptyUtil defaultOptions ''high fever'' 5 None False
     = Inl (Error ''Index must be built or loaded before searching'')
   \<and> processQuery (Inr brokenEmbedder) answering feverUtil defaultOptions ''high fever'' 5 None False
     = Inl (Error ''embedding service unavailable'')"
  by (simp add: processQuery_def search_def emptyUtil_def feverUtil_simps)

section \<open>Nearest-neighbour search\<close>

lemma hd_insort_key:
  "hd (insort_key f x ys) = (if ys = [] \<or> f x \<le> f (hd ys) then x else hd ys)"
  by (cases ys) simp_all

lemma sort_key_not_Nil: "xs \<noteq> [] \<Longrightarrow> sort_key f xs \<noteq> []"
  by (metis length_sort length_0_conv)

text \<open>The head of a stably sorted list is the first of the elements with the least key.\<close>

lemma hd_sort_key_first_least:
  fixes f :: "'a \<Rightarrow> real"
  assumes "xs \<noteq> []"
  shows "\<exists>pre post. xs = pre @ hd (sort_key f xs) # post
           \<and> (\<forall>y\<in>set pre. f (hd (sort_key f xs)) < f y)
           \<and> (\<forall>y\<in>set post. f (hd (sort_key f xs)) \<le> f y)"
  using assms
proof (induction xs)
  case Nil
  then show ?case by simp
next
  case (Cons x xs)
  show ?case
  proof (cases "xs = []")
    case True
    then show ?thesis
      by (intro exI [of _ "[]"]) simp
  next
    case False
    let ?h = "hd (sort_key f xs)"
    from Cons.IH [OF False] obtain pre post where
      split: "xs = pre @ ?h # post"
      and before: "\<forall>y\<in>set pre. f ?h < f y"
      and after: "\<forall>y\<in>set post. f ?h \<le> f y"
      by blast
    have least: "\<forall>y\<in>set xs. f ?h \<le> f y"
    proof
      fix y assume "y \<in> set xs"
      then have "y \<in> set pre \<or> y = ?h \<or> y \<in> set post"
        using split by (metis Un_iff insert_iff list.simps(15) set_append)
      then show "f ?h \<le> f y" using before after by auto
    qed
    have ne: "sort_key f xs \<noteq> []" using False by (rule sort_key_not_Nil)
    show ?thesis
    proof (cases "f x \<le> f ?h")
      case True
      then have "hd (sort_key f (x # xs)) = x"
        by (simp add: hd_insort_key)
      moreover have "\<forall>y\<in>set xs. f x \<le> f y"
        using True least by force
      ultimately show ?thesis
        by (intro exI [of _ "[]"] exI [of _ xs]) simp
    next
      case larger: False
      then have hd: "hd (sort_key f (x # xs)) = ?h"
        using ne by (simp add: hd_insort_key)
      have "x # xs = (x # pre) @ ?h # post"
        using split by simp
      moreover have "\<forall>y\<in>set (x # pre). f ?h < f y"
        using larger before by auto
      ultimately show ?thesis
        unfolding hd using after by blast
    qed
  qed
qed

lemma upt_split:
  assumes "[0..<n] = pre @ h # post"
  shows "h < n \<and> set pre = {0..<h}"
proof -
  have len: "length pre < n"
    using arg_cong [OF assms, of length] by simp
  have "[0..<n] ! length pre = h"
    by (simp add: assms)
  then have h: "h = length pre" using len by simp
  have "pre = take (length pre) [0..<n]"
    by (simp add: assms)
  then have "pre = [0..<length pre]"
    using len by (simp add: take_upt)
  then have "set pre = {0..<length pre}"
    by (metis atLeastLessThan_upt)
  then show ?thesis using h len by simp
qed

lemma hd_ranked:
  fixes f :: "nat \<Rightarrow> real"
  assumes "0 < n"
  shows "hd (sort_key f [0..<n]) < n
         \<and> (\<forall>j<n. f (hd (sort_key f [0..<n])) \<le> f j)
         \<and> (\<forall>j<hd (sort_key f [0..<n]). f (hd (sort_key f [0..<n])) < f j)"
proof -
  let ?h = "hd (sort_key f [0..<n])"
  have "[0..<n] \<noteq> []" using assms by simp
  from hd_sort_key_first_least [OF this, of f] obtain pre post where
    split: "[0..<n] = pre @ ?h # post"
    and before: "\<forall>y\<in>set pre. f ?h < f y"
    and after: "\<forall>y\<in>set post. f ?h \<le> f y"
    by blast
  have h: "?h < n" and pre: "set pre = {0..<?h}"
    using upt_split [OF split] by simp_all
  have "f ?h \<le> f j" if "j < n" for j
  proof -
    have "j \<in> set [0..<n]" using that by simp
    then have "j \<in> set pre \<or> j = ?h \<or> j \<in> set post"
      using split by (metis Un_iff insert_iff list.simps(15) set_append)
    then show ?thesis using before after by auto
  qed
  moreover have "f ?h < f j" if "j < ?h" for j
    using that before pre by simp
  ultimately show ?thesis using h by blast
qed


section \<open>Distances\<close>





section \<open>Narrowing to 32-bit floats\<close>







section \<open>Building the index and searching it\<close>






text \<open>
  The first position a search of the index returns holds a nearest vector, and every vector
  inserted before it is strictly farther: among equally near vectors the first inserted wins.
\<close>

lemma index_search_first_nearest:
  assumes "vectors idx \<noteq> []" and "0 < k"
  shows "\<exists>ids dists. index_search idx q k = Inr (ids, dists) \<and> ids \<noteq> []
           \<and> hd ids < length (vectors idx)
           \<and> (\<forall>j<length (vectors idx).
                 rankKey (kind idx) q (vectors idx ! hd ids)
                   \<le> rankKey (kind idx) q (vectors idx ! j))
           \<and> (\<forall>j<hd ids.
                 rankKey (kind idx) q (vectors idx ! hd ids)
                   < rankKey (kind idx) q (vectors idx ! j))"
proof -
  let ?n = "length (vectors idx)"
  let ?key = "\<lambda>j. rankKey (kind idx) q (vectors idx ! j)"
  let ?ranked = "sort_key ?key [0..<?n]"
  let ?ids = "take (min k ?n) ?ranked"
  have n: "0 < ?n" using assms(1) by simp
  have found: "index_search idx q k
               = Inr (?ids, map (\<lambda>j. score (kind idx) q (vectors idx ! j)) ?ids)"
    using assms(1) by (simp add: index_search_def Let_def)
  have "?ranked \<noteq> []"
    using n by (intro sort_key_not_Nil) simp
  moreover have "0 < min k ?n"
    using n assms(2) by (simp add: min_def)
  ultimately have ids: "?ids \<noteq> []" and hd: "hd ?ids = hd ?ranked"
    by (cases ?ranked; cases "min k ?n"; simp)+
  show ?thesis
    using found ids hd_ranked [OF n, of ?key] unfolding hd [symmetric] by blast
qed











end
